theory Spec2Isabelle
  imports Main "HOL-Library.Word"
begin

section \<open>Values of the SDK that the package handles\<close>

text \<open>
  The package \<^verbatim>\<open>bucket\<close> is a layer over the S3 client interface of the AWS SDK for Go.
  A Go pointer to a scalar (\<^verbatim>\<open>*string\<close>, \<^verbatim>\<open>*int64\<close>, \<^verbatim>\<open>*bool\<close>) is an option, \<open>None\<close> for
  \<^verbatim>\<open>nil\<close>; a Go string is a list of bytes; \<^verbatim>\<open>int64\<close> is a 64-bit word. An interface value
  the package only passes on (\<^verbatim>\<open>io.ReadSeeker\<close>, \<^verbatim>\<open>io.ReadCloser\<close>, \<^verbatim>\<open>aws.Context\<close>) is a type
  variable (\<open>'rs\<close>, \<open>'rc\<close>, \<open>'ctx\<close>), under an option where the Go value may be \<^verbatim>\<open>nil\<close>.
\<close>

definition aws_String :: "string \<Rightarrow> string option" where
  "aws_String v = Some v"

definition aws_Int64 :: "64 word \<Rightarrow> 64 word option" where
  "aws_Int64 v = Some v"

definition aws_StringValue :: "string option \<Rightarrow> string" where
  "aws_StringValue p = (case p of None \<Rightarrow> [] | Some v \<Rightarrow> v)"

definition ObjectCannedACLPrivate :: string where
  "ObjectCannedACLPrivate = ''private''"

definition ObjectCannedACLPublicRead :: string where
  "ObjectCannedACLPublicRead = ''public-read''"

definition StatusNotFound :: int where
  "StatusNotFound = 404"

text \<open>
  The request structs of the SDK, each with the fields the package assigns and a few of
  its other optional fields. A struct literal leaves every field it does not name at its
  zero value, which is \<open>None\<close> for all of them.
\<close>

record 'rs PutObjectInput =
  ACL :: "string option"
  Body :: "'rs option"
  Bucket :: "string option"
  ContentLength :: "64 word option"
  ContentType :: "string option"
  Key :: "string option"
  SSEKMSKeyId :: "string option"
  ServerSideEncryption :: "string option"

record GetObjectInput =
  Bucket :: "string option"
  IfMatch :: "string option"
  IfNoneMatch :: "string option"
  Key :: "string option"
  Range :: "string option"
  VersionId :: "string option"

record HeadObjectInput =
  Bucket :: "string option"
  IfMatch :: "string option"
  IfNoneMatch :: "string option"
  Key :: "string option"
  Range :: "string option"
  VersionId :: "string option"

record DeleteObjectInput =
  Bucket :: "string option"
  BypassGovernanceRetention :: "bool option"
  ExpectedBucketOwner :: "string option"
  Key :: "string option"
  MFA :: "string option"
  RequestPayer :: "string option"
  VersionId :: "string option"

record ObjectIdentifier =
  Key :: "string option"
  VersionId :: "string option"

record Delete =
  Objects :: "ObjectIdentifier option list"
  Quiet :: "bool option"

record DeleteObjectsInput =
  Bucket :: "string option"
  BypassGovernanceRetention :: "bool option"
  Delete :: "Delete option"
  ExpectedBucketOwner :: "string option"
  MFA :: "string option"
  RequestPayer :: "string option"

record ListObjectsInput =
  Bucket :: "string option"
  Delimiter :: "string option"
  EncodingType :: "string option"
  Marker :: "string option"
  MaxKeys :: "64 word option"
  Prefix :: "string option"

record ListObjectsV2Input =
  Bucket :: "string option"
  ContinuationToken :: "string option"
  Delimiter :: "string option"
  EncodingType :: "string option"
  MaxKeys :: "64 word option"
  Prefix :: "string option"
  StartAfter :: "string option"

record ListObjectVersionsInput =
  Bucket :: "string option"
  Delimiter :: "string option"
  EncodingType :: "string option"
  KeyMarker :: "string option"
  MaxKeys :: "64 word option"
  Prefix :: "string option"
  VersionIdMarker :: "string option"

record CopyObjectInput =
  ACL :: "string option"
  Bucket :: "string option"
  ContentType :: "string option"
  CopySource :: "string option"
  Key :: "string option"
  MetadataDirective :: "string option"
  SSEKMSKeyId :: "string option"
  ServerSideEncryption :: "string option"

text \<open>
  The results of the SDK. The package reads one field of one of them, the \<^verbatim>\<open>Body\<close> of a
  \<^verbatim>\<open>GetObjectOutput\<close>; every other result is handed back as it comes.
\<close>

record 'rc GetObjectOutput =
  Body :: "'rc option"
  ContentLength :: "64 word option"
  ETag :: "string option"

record HeadObjectOutput =
  ContentLength :: "64 word option"
  ETag :: "string option"

record PutObjectOutput =
  ETag :: "string option"
  VersionId :: "string option"

record DeleteObjectOutput =
  DeleteMarker :: "bool option"
  VersionId :: "string option"

record DeleteObjectsOutput =
  Deleted :: "ObjectIdentifier option list"

record ListObjectsOutput =
  Contents :: "string option list"
  IsTruncated :: "bool option"

record ListObjectsV2Output =
  Contents :: "string option list"
  IsTruncated :: "bool option"

record ListObjectVersionsOutput =
  Versions :: "ObjectIdentifier option list"
  IsTruncated :: "bool option"

record CopyObjectOutput =
  ETag :: "string option"
  VersionId :: "string option"

record Request =
  Operation :: string
  HTTPPath :: string

text \<open>
  A Go \<^verbatim>\<open>error\<close> is an interface value. What the package asks of one is whether it
  implements \<^verbatim>\<open>awserr.RequestFailure\<close> and, if so, its HTTP status code; the datatype keeps
  that distinction: a request failure (status code, error code, message), an SDK error
  without a status code (error code, message), and any other error value.
\<close>

datatype error =
    RequestFailure int string string
  | AwsError string string
  | ErrorString string

text \<open>The type assertion \<^verbatim>\<open>err.(awserr.RequestFailure)\<close> followed by \<^verbatim>\<open>StatusCode()\<close>:
  \<open>None\<close> when the assertion's \<^verbatim>\<open>ok\<close> is false.\<close>

fun RequestFailure_StatusCode :: "error \<Rightarrow> int option" where
  "RequestFailure_StatusCode (RequestFailure sc c m) = Some sc"
| "RequestFailure_StatusCode (AwsError c m) = None"
| "RequestFailure_StatusCode (ErrorString m) = None"

text \<open>A call that can end in a run-time panic instead of returning.\<close>

datatype 'a outcome = Panic | Returned 'a

section \<open>The client interface and the bucket handle\<close>

text \<open>
  \<^verbatim>\<open>s3iface.S3API\<close>, restricted to the methods the package calls. A method of the client
  talks to the service: it takes the state of the service (\<open>'w\<close>) and returns its results
  with the state after the call. A Go method returning \<^verbatim>\<open>(*Output, error)\<close> returns a pair
  of options, since either component may be \<^verbatim>\<open>nil\<close> independently of the other.
\<close>

record ('w, 'ctx, 'rs, 'rc) S3API =
  GetObject :: "GetObjectInput \<Rightarrow> 'w \<Rightarrow> ('rc GetObjectOutput option \<times> error option) \<times> 'w"
  GetObjectRequest :: "GetObjectInput \<Rightarrow> 'w \<Rightarrow> (Request option \<times> 'rc GetObjectOutput option) \<times> 'w"
  HeadObject :: "HeadObjectInput \<Rightarrow> 'w \<Rightarrow> (HeadObjectOutput option \<times> error option) \<times> 'w"
  PutObject :: "'rs PutObjectInput \<Rightarrow> 'w \<Rightarrow> (PutObjectOutput option \<times> error option) \<times> 'w"
  DeleteObject :: "DeleteObjectInput \<Rightarrow> 'w \<Rightarrow> (DeleteObjectOutput option \<times> error option) \<times> 'w"
  DeleteObjects :: "DeleteObjectsInput \<Rightarrow> 'w \<Rightarrow> (DeleteObjectsOutput option \<times> error option) \<times> 'w"
  ListObjects :: "ListObjectsInput \<Rightarrow> 'w \<Rightarrow> (ListObjectsOutput option \<times> error option) \<times> 'w"
  ListObjectsV2PagesWithContext ::
    "'ctx \<Rightarrow> ListObjectsV2Input \<Rightarrow> (ListObjectsV2Output option \<Rightarrow> bool \<Rightarrow> bool) \<Rightarrow> 'w
      \<Rightarrow> error option \<times> 'w"
  ListObjectVersionsPagesWithContext ::
    "'ctx \<Rightarrow> ListObjectVersionsInput \<Rightarrow> (ListObjectVersionsOutput option \<Rightarrow> bool \<Rightarrow> bool) \<Rightarrow> 'w
      \<Rightarrow> error option \<times> 'w"
  CopyObject :: "CopyObjectInput \<Rightarrow> 'w \<Rightarrow> (CopyObjectOutput option \<times> error option) \<times> 'w"

text \<open>The struct \<^verbatim>\<open>Bucket\<close>: the client and the bucket name, a \<^verbatim>\<open>*string\<close>.\<close>

record ('w, 'ctx, 'rs, 'rc) Bucket =
  S3 :: "('w, 'ctx, 'rs, 'rc) S3API"
  Name :: "string option"

definition New :: "('w, 'ctx, 'rs, 'rc) S3API \<Rightarrow> string \<Rightarrow> ('w, 'ctx, 'rs, 'rc) Bucket" where
  "New s name = \<lparr>S3 = s, Name = aws_String name\<rparr>"

text \<open>
  The methods have the pointer receiver \<^verbatim>\<open>b *Bucket\<close>, so they could assign to the handle.
  The state a method runs in holds the handle it is called on and the state of the
  service; a method returns its results and the state it leaves.
\<close>

record ('w, 'ctx, 'rs, 'rc) state =
  bucket :: "('w, 'ctx, 'rs, 'rc) Bucket"
  service :: 'w

text \<open>\<^verbatim>\<open>b.S3.M(req)\<close>: one call of the client's method \<open>m\<close>, on the service as it is.\<close>

definition call ::
  "(('w, 'ctx, 'rs, 'rc) S3API \<Rightarrow> 'req \<Rightarrow> 'w \<Rightarrow> 'res \<times> 'w) \<Rightarrow> 'req \<Rightarrow> ('w, 'ctx, 'rs, 'rc) state
    \<Rightarrow> 'res \<times> ('w, 'ctx, 'rs, 'rc) state" where
  "call m req st =
     (case m (S3 (bucket st)) req (service st) of (res, sv) \<Rightarrow> (res, st\<lparr>service := sv\<rparr>))"

text \<open>\<^verbatim>\<open>for _, f := range opts { f(req) }\<close>: the options run on the request from left to
  right, each on the request the previous one left.\<close>

definition apply_opts :: "('req \<Rightarrow> 'req) list \<Rightarrow> 'req \<Rightarrow> 'req" where
  "apply_opts opts req = foldl (\<lambda>r f. f r) req opts"

section \<open>Package option: the options of PutObject\<close>

text \<open>
  \<^verbatim>\<open>type PutObjectInput func(req *s3.PutObjectInput)\<close>: an option is a function that
  changes the request it is given. The request is a fresh struct of the method that runs
  the option, so the change is the request the option returns. An option here is a function value that
  returns and has no effect but on the fields of the request: a \<^verbatim>\<open>nil\<close> function value, a
  function that panics, and one that writes through the pointers it finds in the request
  are outside the model. So are a \<^verbatim>\<open>nil\<close> handle and a \<^verbatim>\<open>nil\<close> client.
\<close>

type_synonym 'rs PutObjectOption = "'rs PutObjectInput \<Rightarrow> 'rs PutObjectInput"

definition SSEKMSKeyID :: "string \<Rightarrow> 'rs PutObjectOption" where
  "SSEKMSKeyID keyID = (\<lambda>req.
     req\<lparr>PutObjectInput.SSEKMSKeyId := aws_String keyID,
         PutObjectInput.ServerSideEncryption := aws_String ''aws:kms''\<rparr>)"

definition SSES3 :: "'rs PutObjectOption" where
  "SSES3 = (\<lambda>req. req\<lparr>PutObjectInput.ServerSideEncryption := aws_String ''AES256''\<rparr>)"

definition ACLPrivate :: "'rs PutObjectOption" where
  "ACLPrivate = (\<lambda>req. req\<lparr>PutObjectInput.ACL := aws_String ObjectCannedACLPrivate\<rparr>)"

definition ACLPublicRead :: "'rs PutObjectOption" where
  "ACLPublicRead = (\<lambda>req. req\<lparr>PutObjectInput.ACL := aws_String ObjectCannedACLPublicRead\<rparr>)"

definition ContentType :: "string \<Rightarrow> 'rs PutObjectOption" where
  "ContentType ct = (\<lambda>req. req\<lparr>PutObjectInput.ContentType := aws_String ct\<rparr>)"

definition ContentLength :: "64 word \<Rightarrow> 'rs PutObjectOption" where
  "ContentLength len = (\<lambda>req. req\<lparr>PutObjectInput.ContentLength := aws_Int64 len\<rparr>)"

text \<open>The options this file provides: the values of its six constructors.\<close>

inductive put_option :: "'rs PutObjectOption \<Rightarrow> bool" where
  put_SSEKMSKeyID: "put_option (SSEKMSKeyID keyID)"
| put_SSES3: "put_option SSES3"
| put_ACLPrivate: "put_option ACLPrivate"
| put_ACLPublicRead: "put_option ACLPublicRead"
| put_ContentType: "put_option (ContentType ct)"
| put_ContentLength: "put_option (ContentLength len)"

section \<open>The option families of the other methods\<close>

text \<open>
  Modelled from the spec: the option types \<^verbatim>\<open>option.GetObjectInput\<close>, \<^verbatim>\<open>option.HeadObjectInput\<close>,
  \<^verbatim>\<open>option.ListObjectsInput\<close>, \<^verbatim>\<open>option.ListObjectsV2Input\<close>,
  \<^verbatim>\<open>option.ListObjectVersionsInput\<close> and \<^verbatim>\<open>option.CopyObjectInput\<close> that the methods name, and
  the constructors of their values, are in files of the package \<^verbatim>\<open>option\<close> that are not
  among the sources (only the file of the Put options is). The spec describes an option of
  any family as a function from a request to the changed request, and these families as
  per-field setters built like the Put options, each applying one optional field, that add
  or override additional fields and never unset the bucket or the key. So the types are
  function types like that of the Put options, and an option of such a family is the
  assignment of a value to one field of its request that the method does not set itself.
\<close>

type_synonym GetObjectOption = "GetObjectInput \<Rightarrow> GetObjectInput"
type_synonym HeadObjectOption = "HeadObjectInput \<Rightarrow> HeadObjectInput"
type_synonym ListObjectsOption = "ListObjectsInput \<Rightarrow> ListObjectsInput"
type_synonym ListObjectsV2Option = "ListObjectsV2Input \<Rightarrow> ListObjectsV2Input"
type_synonym ListObjectVersionsOption = "ListObjectVersionsInput \<Rightarrow> ListObjectVersionsInput"
type_synonym CopyObjectOption = "CopyObjectInput \<Rightarrow> CopyObjectInput"

inductive get_option :: "GetObjectOption \<Rightarrow> bool" where
  get_IfMatch: "get_option (\<lambda>req. req\<lparr>GetObjectInput.IfMatch := v\<rparr>)"
| get_IfNoneMatch: "get_option (\<lambda>req. req\<lparr>GetObjectInput.IfNoneMatch := v\<rparr>)"
| get_Range: "get_option (\<lambda>req. req\<lparr>GetObjectInput.Range := v\<rparr>)"
| get_VersionId: "get_option (\<lambda>req. req\<lparr>GetObjectInput.VersionId := v\<rparr>)"

inductive head_option :: "HeadObjectOption \<Rightarrow> bool" where
  head_IfMatch: "head_option (\<lambda>req. req\<lparr>HeadObjectInput.IfMatch := v\<rparr>)"
| head_IfNoneMatch: "head_option (\<lambda>req. req\<lparr>HeadObjectInput.IfNoneMatch := v\<rparr>)"
| head_Range: "head_option (\<lambda>req. req\<lparr>HeadObjectInput.Range := v\<rparr>)"
| head_VersionId: "head_option (\<lambda>req. req\<lparr>HeadObjectInput.VersionId := v\<rparr>)"

inductive list_option :: "ListObjectsOption \<Rightarrow> bool" where
  list_Delimiter: "list_option (\<lambda>req. req\<lparr>ListObjectsInput.Delimiter := v\<rparr>)"
| list_EncodingType: "list_option (\<lambda>req. req\<lparr>ListObjectsInput.EncodingType := v\<rparr>)"
| list_Marker: "list_option (\<lambda>req. req\<lparr>ListObjectsInput.Marker := v\<rparr>)"
| list_MaxKeys: "list_option (\<lambda>req. req\<lparr>ListObjectsInput.MaxKeys := n\<rparr>)"

inductive list_v2_option :: "ListObjectsV2Option \<Rightarrow> bool" where
  v2_ContinuationToken:
    "list_v2_option (\<lambda>req. req\<lparr>ListObjectsV2Input.ContinuationToken := v\<rparr>)"
| v2_Delimiter: "list_v2_option (\<lambda>req. req\<lparr>ListObjectsV2Input.Delimiter := v\<rparr>)"
| v2_EncodingType: "list_v2_option (\<lambda>req. req\<lparr>ListObjectsV2Input.EncodingType := v\<rparr>)"
| v2_MaxKeys: "list_v2_option (\<lambda>req. req\<lparr>ListObjectsV2Input.MaxKeys := n\<rparr>)"
| v2_StartAfter: "list_v2_option (\<lambda>req. req\<lparr>ListObjectsV2Input.StartAfter := v\<rparr>)"

inductive list_versions_option :: "ListObjectVersionsOption \<Rightarrow> bool" where
  versions_Delimiter:
    "list_versions_option (\<lambda>req. req\<lparr>ListObjectVersionsInput.Delimiter := v\<rparr>)"
| versions_EncodingType:
    "list_versions_option (\<lambda>req. req\<lparr>ListObjectVersionsInput.EncodingType := v\<rparr>)"
| versions_KeyMarker:
    "list_versions_option (\<lambda>req. req\<lparr>ListObjectVersionsInput.KeyMarker := v\<rparr>)"
| versions_MaxKeys:
    "list_versions_option (\<lambda>req. req\<lparr>ListObjectVersionsInput.MaxKeys := n\<rparr>)"
| versions_VersionIdMarker:
    "list_versions_option (\<lambda>req. req\<lparr>ListObjectVersionsInput.VersionIdMarker := v\<rparr>)"

inductive copy_option :: "CopyObjectOption \<Rightarrow> bool" where
  copy_ACL: "copy_option (\<lambda>req. req\<lparr>CopyObjectInput.ACL := v\<rparr>)"
| copy_ContentType: "copy_option (\<lambda>req. req\<lparr>CopyObjectInput.ContentType := v\<rparr>)"
| copy_MetadataDirective:
    "copy_option (\<lambda>req. req\<lparr>CopyObjectInput.MetadataDirective := v\<rparr>)"
| copy_SSEKMSKeyId: "copy_option (\<lambda>req. req\<lparr>CopyObjectInput.SSEKMSKeyId := v\<rparr>)"
| copy_ServerSideEncryption:
    "copy_option (\<lambda>req. req\<lparr>CopyObjectInput.ServerSideEncryption := v\<rparr>)"

section \<open>Go's net/url: escaping a query component\<close>

text \<open>
  Modelled from the spec: \<^verbatim>\<open>url.QueryEscape\<close>, which \<^verbatim>\<open>CopyObject\<close> calls, and its inverse
  \<^verbatim>\<open>url.QueryUnescape\<close> belong to Go's standard library and are not part of the repository;
  the spec names them only as URL-escaping and unescaping. The definitions follow the
  library's \<^verbatim>\<open>escape\<close> and \<^verbatim>\<open>unescape\<close> in the mode \<^verbatim>\<open>encodeQueryComponent\<close>: letters, digits
  and \<^verbatim>\<open>- _ . ~\<close> stay, a space becomes \<^verbatim>\<open>+\<close>, every other byte becomes \<^verbatim>\<open>%\<close> and two upper-case
  hexadecimal digits. A byte is read as a number below 256, so \<^verbatim>\<open>c>>4\<close> is \<open>div 16\<close>,
  \<^verbatim>\<open>c&15\<close> is \<open>mod 16\<close>, and \<^verbatim>\<open>hi<<4 | lo\<close> with \<open>lo < 16\<close> is \<open>hi * 16 + lo\<close>.
\<close>

definition byte :: "char \<Rightarrow> nat" where
  "byte c = of_char c"

definition shouldEscape :: "char \<Rightarrow> bool" where
  "shouldEscape c =
     (if (byte CHR ''a'' \<le> byte c \<and> byte c \<le> byte CHR ''z'')
         \<or> (byte CHR ''A'' \<le> byte c \<and> byte c \<le> byte CHR ''Z'')
         \<or> (byte CHR ''0'' \<le> byte c \<and> byte c \<le> byte CHR ''9'') then False
      else if c \<in> set ''-_.~'' then False
      else if c \<in> set ''$&+,/:;=?@'' then True
      else True)"

definition upperhex :: string where
  "upperhex = ''0123456789ABCDEF''"

text \<open>One step of the loop that writes the escaped string.\<close>

definition escape_byte :: "char \<Rightarrow> string" where
  "escape_byte c =
     (if c = CHR '' '' then ''+''
      else if shouldEscape c then
        [CHR ''%'', upperhex ! (byte c div 16), upperhex ! (byte c mod 16)]
      else [c])"

definition QueryEscape :: "string \<Rightarrow> string" where
  "QueryEscape s =
     (let spaceCount = length (filter (\<lambda>c. shouldEscape c \<and> c = CHR '' '') s);
          hexCount = length (filter (\<lambda>c. shouldEscape c \<and> c \<noteq> CHR '' '') s)
      in if spaceCount = 0 \<and> hexCount = 0 then s else concat (map escape_byte s))"






section \<open>Package bucket: the methods of the handle\<close>

definition GetObject ::
  "string \<Rightarrow> GetObjectOption list \<Rightarrow> ('w, 'ctx, 'rs, 'rc) state
    \<Rightarrow> ('rc GetObjectOutput option \<times> error option) \<times> ('w, 'ctx, 'rs, 'rc) state" where
  "GetObject key opts st =
     (let b = bucket st;
          req = \<lparr>GetObjectInput.Bucket = Name b, GetObjectInput.IfMatch = None,
                 GetObjectInput.IfNoneMatch = None, GetObjectInput.Key = aws_String key,
                 GetObjectInput.Range = None, GetObjectInput.VersionId = None\<rparr>;
          req = apply_opts opts req
      in call S3API.GetObject req st)"

definition GetObjectReader ::
  "string \<Rightarrow> GetObjectOption list \<Rightarrow> ('w, 'ctx, 'rs, 'rc) state
    \<Rightarrow> ('rc option \<times> error option) outcome \<times> ('w, 'ctx, 'rs, 'rc) state" where
  "GetObjectReader key opts st =
     (case GetObject key opts st of
        ((resp, err), st') \<Rightarrow>
          if err \<noteq> None then (Returned (None, err), st')
          else (case resp of
                  None \<Rightarrow> (Panic, st')
                | Some r \<Rightarrow> (Returned (GetObjectOutput.Body r, None), st')))"

definition GetObjectRequest ::
  "string \<Rightarrow> GetObjectOption list \<Rightarrow> ('w, 'ctx, 'rs, 'rc) state
    \<Rightarrow> (Request option \<times> 'rc GetObjectOutput option) \<times> ('w, 'ctx, 'rs, 'rc) state" where
  "GetObjectRequest key opts st =
     (let b = bucket st;
          req = \<lparr>GetObjectInput.Bucket = Name b, GetObjectInput.IfMatch = None,
                 GetObjectInput.IfNoneMatch = None, GetObjectInput.Key = aws_String key,
                 GetObjectInput.Range = None, GetObjectInput.VersionId = None\<rparr>;
          req = apply_opts opts req
      in call S3API.GetObjectRequest req st)"

definition HeadObject ::
  "string \<Rightarrow> HeadObjectOption list \<Rightarrow> ('w, 'ctx, 'rs, 'rc) state
    \<Rightarrow> (HeadObjectOutput option \<times> error option) \<times> ('w, 'ctx, 'rs, 'rc) state" where
  "HeadObject key opts st =
     (let b = bucket st;
          req = \<lparr>HeadObjectInput.Bucket = Name b, HeadObjectInput.IfMatch = None,
                 HeadObjectInput.IfNoneMatch = None, HeadObjectInput.Key = aws_String key,
                 HeadObjectInput.Range = None, HeadObjectInput.VersionId = None\<rparr>;
          req = apply_opts opts req
      in call S3API.HeadObject req st)"

definition ExistsObject ::
  "string \<Rightarrow> HeadObjectOption list \<Rightarrow> ('w, 'ctx, 'rs, 'rc) state
    \<Rightarrow> (bool \<times> error option) \<times> ('w, 'ctx, 'rs, 'rc) state" where
  "ExistsObject key opts st =
     (case HeadObject key opts st of
        ((resp, err), st') \<Rightarrow>
          (case err of
             None \<Rightarrow> ((True, None), st')
           | Some e \<Rightarrow>
               if RequestFailure_StatusCode e = Some StatusNotFound then ((False, None), st')
               else ((False, err), st')))"

definition PutObject ::
  "string \<Rightarrow> 'rs option \<Rightarrow> 'rs PutObjectOption list \<Rightarrow> ('w, 'ctx, 'rs, 'rc) state
    \<Rightarrow> (PutObjectOutput option \<times> error option) \<times> ('w, 'ctx, 'rs, 'rc) state" where
  "PutObject key rs opts st =
     (let b = bucket st;
          req = \<lparr>PutObjectInput.ACL = None, PutObjectInput.Body = rs,
                 PutObjectInput.Bucket = Name b, PutObjectInput.ContentLength = None,
                 PutObjectInput.ContentType = None, PutObjectInput.Key = aws_String key,
                 PutObjectInput.SSEKMSKeyId = None, PutObjectInput.ServerSideEncryption = None\<rparr>;
          req = apply_opts opts req
      in call S3API.PutObject req st)"

definition DeleteObject ::
  "string \<Rightarrow> ('w, 'ctx, 'rs, 'rc) state
    \<Rightarrow> (DeleteObjectOutput option \<times> error option) \<times> ('w, 'ctx, 'rs, 'rc) state" where
  "DeleteObject key st =
     (let b = bucket st;
          req = \<lparr>DeleteObjectInput.Bucket = Name b,
                 DeleteObjectInput.BypassGovernanceRetention = None,
                 DeleteObjectInput.ExpectedBucketOwner = None,
                 DeleteObjectInput.Key = aws_String key, DeleteObjectInput.MFA = None,
                 DeleteObjectInput.RequestPayer = None, DeleteObjectInput.VersionId = None\<rparr>
      in call S3API.DeleteObject req st)"

definition DeleteObjects ::
  "ObjectIdentifier option list \<Rightarrow> ('w, 'ctx, 'rs, 'rc) state
    \<Rightarrow> (DeleteObjectsOutput option \<times> error option) \<times> ('w, 'ctx, 'rs, 'rc) state" where
  "DeleteObjects identifiers st =
     (let b = bucket st;
          req = \<lparr>DeleteObjectsInput.Bucket = Name b,
                 DeleteObjectsInput.BypassGovernanceRetention = None,
                 DeleteObjectsInput.Delete = Some \<lparr>Objects = identifiers, Quiet = None\<rparr>,
                 DeleteObjectsInput.ExpectedBucketOwner = None, DeleteObjectsInput.MFA = None,
                 DeleteObjectsInput.RequestPayer = None\<rparr>
      in call S3API.DeleteObjects req st)"

definition ListObjects ::
  "string \<Rightarrow> ListObjectsOption list \<Rightarrow> ('w, 'ctx, 'rs, 'rc) state
    \<Rightarrow> (ListObjectsOutput option \<times> error option) \<times> ('w, 'ctx, 'rs, 'rc) state" where
  "ListObjects prefix opts st =
     (let b = bucket st;
          req = \<lparr>ListObjectsInput.Bucket = Name b, ListObjectsInput.Delimiter = None,
                 ListObjectsInput.EncodingType = None, ListObjectsInput.Marker = None,
                 ListObjectsInput.MaxKeys = None, ListObjectsInput.Prefix = aws_String prefix\<rparr>;
          req = apply_opts opts req
      in call S3API.ListObjects req st)"

definition ListObjectsV2PagesWithContext ::
  "'ctx \<Rightarrow> string \<Rightarrow> (ListObjectsV2Output option \<Rightarrow> bool \<Rightarrow> bool) \<Rightarrow> ListObjectsV2Option list
    \<Rightarrow> ('w, 'ctx, 'rs, 'rc) state \<Rightarrow> error option \<times> ('w, 'ctx, 'rs, 'rc) state" where
  "ListObjectsV2PagesWithContext ctx prefix pageFunc opts st =
     (let b = bucket st;
          req = \<lparr>ListObjectsV2Input.Bucket = Name b, ListObjectsV2Input.ContinuationToken = None,
                 ListObjectsV2Input.Delimiter = None, ListObjectsV2Input.EncodingType = None,
                 ListObjectsV2Input.MaxKeys = None, ListObjectsV2Input.Prefix = aws_String prefix,
                 ListObjectsV2Input.StartAfter = None\<rparr>;
          req = apply_opts opts req
      in call (\<lambda>s r. S3API.ListObjectsV2PagesWithContext s ctx r pageFunc) req st)"

definition ListObjectVersionsPagesWithContext ::
  "'ctx \<Rightarrow> string \<Rightarrow> (ListObjectVersionsOutput option \<Rightarrow> bool \<Rightarrow> bool)
    \<Rightarrow> ListObjectVersionsOption list
    \<Rightarrow> ('w, 'ctx, 'rs, 'rc) state \<Rightarrow> error option \<times> ('w, 'ctx, 'rs, 'rc) state" where
  "ListObjectVersionsPagesWithContext ctx prefix pageFunc opts st =
     (let b = bucket st;
          req = \<lparr>ListObjectVersionsInput.Bucket = Name b,
                 ListObjectVersionsInput.Delimiter = None,
                 ListObjectVersionsInput.EncodingType = None,
                 ListObjectVersionsInput.KeyMarker = None,
                 ListObjectVersionsInput.MaxKeys = None,
                 ListObjectVersionsInput.Prefix = aws_String prefix,
                 ListObjectVersionsInput.VersionIdMarker = None\<rparr>;
          req = apply_opts opts req
      in call (\<lambda>s r. S3API.ListObjectVersionsPagesWithContext s ctx r pageFunc) req st)"

definition CopyObject ::
  "string \<Rightarrow> string \<Rightarrow> CopyObjectOption list \<Rightarrow> ('w, 'ctx, 'rs, 'rc) state
    \<Rightarrow> (CopyObjectOutput option \<times> error option) \<times> ('w, 'ctx, 'rs, 'rc) state" where
  "CopyObject dest src opts st =
     (let b = bucket st;
          req = \<lparr>CopyObjectInput.ACL = None, CopyObjectInput.Bucket = Name b,
                 CopyObjectInput.ContentType = None,
                 CopyObjectInput.CopySource =
                   aws_String (aws_StringValue (Name b) @ ''/'' @ QueryEscape src),
                 CopyObjectInput.Key = aws_String dest,
                 CopyObjectInput.MetadataDirective = None, CopyObjectInput.SSEKMSKeyId = None,
                 CopyObjectInput.ServerSideEncryption = None\<rparr>;
          req = apply_opts opts req
      in call S3API.CopyObject req st)"

section \<open>A test double of the client\<close>

text \<open>
  The client is supplied by the caller, so a test double can stand in for the service.
  This one counts the calls it receives in the state of the service; \<^verbatim>\<open>GetObject\<close> answers
  \<open>got\<close>, \<^verbatim>\<open>HeadObject\<close> and the listings answer the error \<open>err\<close>, and \<^verbatim>\<open>PutObject\<close> and
  \<^verbatim>\<open>CopyObject\<close> echo fields of the request they receive.
\<close>

definition double ::
  "string GetObjectOutput option \<times> error option \<Rightarrow> error option \<Rightarrow> (nat, unit, string, string) S3API"
  where
  "double got err =
     \<lparr>S3API.GetObject = (\<lambda>req w. (got, Suc w)),
      S3API.GetObjectRequest =
        (\<lambda>req w. ((Some \<lparr>Operation = ''GetObject'',
                             HTTPPath = aws_StringValue (GetObjectInput.Key req)\<rparr>, fst got), w)),
      S3API.HeadObject = (\<lambda>req w. ((None, err), Suc w)),
      S3API.PutObject =
        (\<lambda>req w. ((Some \<lparr>PutObjectOutput.ETag = PutObjectInput.ContentType req,
                             PutObjectOutput.VersionId = PutObjectInput.Key req\<rparr>, err), Suc w)),
      S3API.DeleteObject = (\<lambda>req w. ((None, err), Suc w)),
      S3API.DeleteObjects =
        (\<lambda>req w. ((Some \<lparr>Deleted = (case DeleteObjectsInput.Delete req of
                                          None \<Rightarrow> [] | Some d \<Rightarrow> Objects d)\<rparr>, err), Suc w)),
      S3API.ListObjects = (\<lambda>req w. ((None, err), Suc w)),
      S3API.ListObjectsV2PagesWithContext = (\<lambda>ctx req pageFunc w. (err, Suc w)),
      S3API.ListObjectVersionsPagesWithContext = (\<lambda>ctx req pageFunc w. (err, Suc w)),
      S3API.CopyObject =
        (\<lambda>req w. ((Some \<lparr>CopyObjectOutput.ETag = CopyObjectInput.CopySource req,
                             CopyObjectOutput.VersionId = CopyObjectInput.Key req\<rparr>, err), Suc w))\<rparr>"

text \<open>The state of a program that has made a handle on the bucket \<^verbatim>\<open>photos\<close> over the double
  and has not called the service yet.\<close>

definition started ::
  "string GetObjectOutput option \<times> error option \<Rightarrow> error option \<Rightarrow> (nat, unit, string, string) state"
  where
  "started got err = \<lparr>bucket = New (double got err) ''photos'', service = 0\<rparr>"

text \<open>The zero value \<^verbatim>\<open>s3.PutObjectInput{}\<close>, with a string for the body's reader.\<close>

definition zero_PutObjectInput :: "string PutObjectInput" where
  "zero_PutObjectInput =
     \<lparr>PutObjectInput.ACL = None, PutObjectInput.Body = None, PutObjectInput.Bucket = None,
      PutObjectInput.ContentLength = None, PutObjectInput.ContentType = None,
      PutObjectInput.Key = None, PutObjectInput.SSEKMSKeyId = None,
      PutObjectInput.ServerSideEncryption = None\<rparr>"

text \<open>
  A second double shows what reaches the client: it answers nothing and keeps, as the
  state of the service, the list of the calls it has received, each with its request, in
  the order received.
\<close>

datatype ('ctx, 'rs) received =
    GetObject_received GetObjectInput
  | GetObjectRequest_received GetObjectInput
  | HeadObject_received HeadObjectInput
  | PutObject_received "'rs PutObjectInput"
  | DeleteObject_received DeleteObjectInput
  | DeleteObjects_received DeleteObjectsInput
  | ListObjects_received ListObjectsInput
  | ListObjectsV2PagesWithContext_received 'ctx ListObjectsV2Input
  | ListObjectVersionsPagesWithContext_received 'ctx ListObjectVersionsInput
  | CopyObject_received CopyObjectInput

definition recorder :: "(('ctx, 'rs) received list, 'ctx, 'rs, 'rc) S3API" where
  "recorder =
     \<lparr>S3API.GetObject = (\<lambda>req w. ((None, None), w @ [GetObject_received req])),
      S3API.GetObjectRequest = (\<lambda>req w. ((None, None), w @ [GetObjectRequest_received req])),
      S3API.HeadObject = (\<lambda>req w. ((None, None), w @ [HeadObject_received req])),
      S3API.PutObject = (\<lambda>req w. ((None, None), w @ [PutObject_received req])),
      S3API.DeleteObject = (\<lambda>req w. ((None, None), w @ [DeleteObject_received req])),
      S3API.DeleteObjects = (\<lambda>req w. ((None, None), w @ [DeleteObjects_received req])),
      S3API.ListObjects = (\<lambda>req w. ((None, None), w @ [ListObjects_received req])),
      S3API.ListObjectsV2PagesWithContext =
        (\<lambda>ctx req pageFunc w. (None, w @ [ListObjectsV2PagesWithContext_received ctx req])),
      S3API.ListObjectVersionsPagesWithContext =
        (\<lambda>ctx req pageFunc w. (None, w @ [ListObjectVersionsPagesWithContext_received ctx req])),
      S3API.CopyObject = (\<lambda>req w. ((None, None), w @ [CopyObject_received req]))\<rparr>"

text \<open>The state of a program that has made a handle on the bucket \<open>name\<close> over the
  recording double, which has received no call yet.\<close>

definition recording :: "string \<Rightarrow> (('ctx, 'rs) received list, 'ctx, 'rs, 'rc) state" where
  "recording name = \<lparr>bucket = New recorder name, service = []\<rparr>"

section \<open>Facts about the option loop and the option families\<close>

lemma apply_opts_Nil: "apply_opts [] req = req"
  by (simp add: apply_opts_def)

lemma apply_opts_Cons: "apply_opts (f # fs) req = apply_opts fs (f req)"
  by (simp add: apply_opts_def)

lemma apply_opts_keeps:
  "list_all (\<lambda>f. \<forall>r. sel (f r) = sel r) opts \<Longrightarrow> sel (apply_opts opts req) = sel req"
  by (induction opts arbitrary: req) (simp_all add: apply_opts_Nil apply_opts_Cons)

lemma list_all_weaken: "list_all P xs \<Longrightarrow> (\<And>x. P x \<Longrightarrow> Q x) \<Longrightarrow> list_all Q xs"
  by (induction xs) auto

lemma apply_opts_family:
  assumes "list_all fam opts" and "\<And>f r. fam f \<Longrightarrow> sel (f r) = sel r"
  shows "sel (apply_opts opts req) = sel req"
  by (rule apply_opts_keeps, rule list_all_weaken [OF assms(1)]) (simp add: assms(2))

lemmas put_defs = SSEKMSKeyID_def SSES3_def ACLPrivate_def ACLPublicRead_def ContentType_def
  ContentLength_def aws_String_def aws_Int64_def ObjectCannedACLPrivate_def
  ObjectCannedACLPublicRead_def

lemma put_option_keeps:
  assumes "put_option f"
  shows "PutObjectInput.Bucket (f r) = PutObjectInput.Bucket r"
    and "PutObjectInput.Key (f r) = PutObjectInput.Key r"
    and "PutObjectInput.Body (f r) = PutObjectInput.Body r"
  using assms by (auto elim!: put_option.cases simp: put_defs)

lemma get_option_keeps:
  assumes "get_option f"
  shows "GetObjectInput.Bucket (f r) = GetObjectInput.Bucket r"
    and "GetObjectInput.Key (f r) = GetObjectInput.Key r"
  using assms by (auto elim!: get_option.cases)

lemma head_option_keeps:
  assumes "head_option f"
  shows "HeadObjectInput.Bucket (f r) = HeadObjectInput.Bucket r"
    and "HeadObjectInput.Key (f r) = HeadObjectInput.Key r"
  using assms by (auto elim!: head_option.cases)

lemma list_option_keeps:
  assumes "list_option f"
  shows "ListObjectsInput.Bucket (f r) = ListObjectsInput.Bucket r"
    and "ListObjectsInput.Prefix (f r) = ListObjectsInput.Prefix r"
  using assms by (auto elim!: list_option.cases)

lemma list_v2_option_keeps:
  assumes "list_v2_option f"
  shows "ListObjectsV2Input.Bucket (f r) = ListObjectsV2Input.Bucket r"
    and "ListObjectsV2Input.Prefix (f r) = ListObjectsV2Input.Prefix r"
  using assms by (auto elim!: list_v2_option.cases)

lemma list_versions_option_keeps:
  assumes "list_versions_option f"
  shows "ListObjectVersionsInput.Bucket (f r) = ListObjectVersionsInput.Bucket r"
    and "ListObjectVersionsInput.Prefix (f r) = ListObjectVersionsInput.Prefix r"
  using assms by (auto elim!: list_versions_option.cases)

lemma copy_option_keeps:
  assumes "copy_option f"
  shows "CopyObjectInput.Bucket (f r) = CopyObjectInput.Bucket r"
    and "CopyObjectInput.Key (f r) = CopyObjectInput.Key r"
    and "CopyObjectInput.CopySource (f r) = CopyObjectInput.CopySource r"
  using assms by (auto elim!: copy_option.cases)

lemma bucket_call: "bucket (snd (call m req st)) = bucket st"
  by (simp add: call_def split: prod.splits)

lemma GetObject_call:
  "GetObject key opts st =
     call S3API.GetObject
       (apply_opts opts
          \<lparr>GetObjectInput.Bucket = Name (bucket st), GetObjectInput.IfMatch = None,
           GetObjectInput.IfNoneMatch = None, GetObjectInput.Key = Some key,
           GetObjectInput.Range = None, GetObjectInput.VersionId = None\<rparr>) st"
  by (simp add: GetObject_def Let_def aws_String_def)

lemma GetObjectRequest_call:
  "GetObjectRequest key opts st =
     call S3API.GetObjectRequest
       (apply_opts opts
          \<lparr>GetObjectInput.Bucket = Name (bucket st), GetObjectInput.IfMatch = None,
           GetObjectInput.IfNoneMatch = None, GetObjectInput.Key = Some key,
           GetObjectInput.Range = None, GetObjectInput.VersionId = None\<rparr>) st"
  by (simp add: GetObjectRequest_def Let_def aws_String_def)

lemma HeadObject_call:
  "HeadObject key opts st =
     call S3API.HeadObject
       (apply_opts opts
          \<lparr>HeadObjectInput.Bucket = Name (bucket st), HeadObjectInput.IfMatch = None,
           HeadObjectInput.IfNoneMatch = None, HeadObjectInput.Key = Some key,
           HeadObjectInput.Range = None, HeadObjectInput.VersionId = None\<rparr>) st"
  by (simp add: HeadObject_def Let_def aws_String_def)

lemma PutObject_call:
  "PutObject key rs opts st =
     call S3API.PutObject
       (apply_opts opts
          \<lparr>PutObjectInput.ACL = None, PutObjectInput.Body = rs,
           PutObjectInput.Bucket = Name (bucket st), PutObjectInput.ContentLength = None,
           PutObjectInput.ContentType = None, PutObjectInput.Key = Some key,
           PutObjectInput.SSEKMSKeyId = None, PutObjectInput.ServerSideEncryption = None\<rparr>) st"
  by (simp add: PutObject_def Let_def aws_String_def)

lemma DeleteObject_call:
  "DeleteObject key st =
     call S3API.DeleteObject
       \<lparr>DeleteObjectInput.Bucket = Name (bucket st),
        DeleteObjectInput.BypassGovernanceRetention = None,
        DeleteObjectInput.ExpectedBucketOwner = None, DeleteObjectInput.Key = Some key,
        DeleteObjectInput.MFA = None, DeleteObjectInput.RequestPayer = None,
        DeleteObjectInput.VersionId = None\<rparr> st"
  by (simp add: DeleteObject_def Let_def aws_String_def)

lemma DeleteObjects_call:
  "DeleteObjects identifiers st =
     call S3API.DeleteObjects
       \<lparr>DeleteObjectsInput.Bucket = Name (bucket st),
        DeleteObjectsInput.BypassGovernanceRetention = None,
        DeleteObjectsInput.Delete = Some \<lparr>Objects = identifiers, Quiet = None\<rparr>,
        DeleteObjectsInput.ExpectedBucketOwner = None, DeleteObjectsInput.MFA = None,
        DeleteObjectsInput.RequestPayer = None\<rparr> st"
  by (simp add: DeleteObjects_def Let_def)

lemma ListObjects_call:
  "ListObjects prefix opts st =
     call S3API.ListObjects
       (apply_opts opts
          \<lparr>ListObjectsInput.Bucket = Name (bucket st), ListObjectsInput.Delimiter = None,
           ListObjectsInput.EncodingType = None, ListObjectsInput.Marker = None,
           ListObjectsInput.MaxKeys = None, ListObjectsInput.Prefix = Some prefix\<rparr>) st"
  by (simp add: ListObjects_def Let_def aws_String_def)

lemma ListObjectsV2PagesWithContext_call:
  "ListObjectsV2PagesWithContext ctx prefix pageFunc opts st =
     call (\<lambda>s r. S3API.ListObjectsV2PagesWithContext s ctx r pageFunc)
       (apply_opts opts
          \<lparr>ListObjectsV2Input.Bucket = Name (bucket st),
           ListObjectsV2Input.ContinuationToken = None, ListObjectsV2Input.Delimiter = None,
           ListObjectsV2Input.EncodingType = None, ListObjectsV2Input.MaxKeys = None,
           ListObjectsV2Input.Prefix = Some prefix, ListObjectsV2Input.StartAfter = None\<rparr>) st"
  by (simp add: ListObjectsV2PagesWithContext_def Let_def aws_String_def)

lemma ListObjectVersionsPagesWithContext_call:
  "ListObjectVersionsPagesWithContext ctx prefix pageFunc opts st =
     call (\<lambda>s r. S3API.ListObjectVersionsPagesWithContext s ctx r pageFunc)
       (apply_opts opts
          \<lparr>ListObjectVersionsInput.Bucket = Name (bucket st),
           ListObjectVersionsInput.Delimiter = None,
           ListObjectVersionsInput.EncodingType = None,
           ListObjectVersionsInput.KeyMarker = None, ListObjectVersionsInput.MaxKeys = None,
           ListObjectVersionsInput.Prefix = Some prefix,
           ListObjectVersionsInput.VersionIdMarker = None\<rparr>) st"
  by (simp add: ListObjectVersionsPagesWithContext_def Let_def aws_String_def)

lemma CopyObject_call:
  "CopyObject dest src opts st =
     call S3API.CopyObject
       (apply_opts opts
          \<lparr>CopyObjectInput.ACL = None, CopyObjectInput.Bucket = Name (bucket st),
           CopyObjectInput.ContentType = None,
           CopyObjectInput.CopySource =
             Some (aws_StringValue (Name (bucket st)) @ ''/'' @ QueryEscape src),
           CopyObjectInput.Key = Some dest, CopyObjectInput.MetadataDirective = None,
           CopyObjectInput.SSEKMSKeyId = None, CopyObjectInput.ServerSideEncryption = None\<rparr>) st"
  by (simp add: CopyObject_def Let_def aws_String_def)

lemma GetObjectReader_cases:
  assumes "GetObject key opts st = ((resp, err), st')"
  shows "err \<noteq> None \<Longrightarrow> GetObjectReader key opts st = (Returned (None, err), st')"
    and "err = None \<Longrightarrow> resp = Some r \<Longrightarrow>
           GetObjectReader key opts st = (Returned (GetObjectOutput.Body r, None), st')"
    and "err = None \<Longrightarrow> resp = None \<Longrightarrow> GetObjectReader key opts st = (Panic, st')"
  using assms by (simp_all add: GetObjectReader_def)

lemma ExistsObject_cases:
  assumes "HeadObject key opts st = ((resp, err), st')"
  shows "err = None \<Longrightarrow> ExistsObject key opts st = ((True, None), st')"
    and "err = Some e \<Longrightarrow> RequestFailure_StatusCode e = Some StatusNotFound \<Longrightarrow>
           ExistsObject key opts st = ((False, None), st')"
    and "err = Some e \<Longrightarrow> RequestFailure_StatusCode e \<noteq> Some StatusNotFound \<Longrightarrow>
           ExistsObject key opts st = ((False, Some e), st')"
  using assms by (simp_all add: ExistsObject_def)

lemma bucket_GetObjectReader: "bucket (snd (GetObjectReader key opts st)) = bucket st"
proof -
  obtain resp err st' where g: "GetObject key opts st = ((resp, err), st')"
    by (metis prod.exhaust)
  have "bucket (snd (GetObject key opts st)) = bucket st"
    by (simp add: GetObject_call bucket_call)
  with g have "bucket st' = bucket st" by simp
  with g show ?thesis
    by (simp add: GetObjectReader_def split: option.splits)
qed

lemma bucket_ExistsObject: "bucket (snd (ExistsObject key opts st)) = bucket st"
proof -
  obtain resp err st' where h: "HeadObject key opts st = ((resp, err), st')"
    by (metis prod.exhaust)
  have "bucket (snd (HeadObject key opts st)) = bucket st"
    by (simp add: HeadObject_call bucket_call)
  with h have "bucket st' = bucket st" by simp
  with h show ?thesis
    by (simp add: ExistsObject_def split: option.splits)
qed

section \<open>Facts about escaping\<close>



















section \<open>The claims\<close>

text \<open>
  Claim C1. \<^verbatim>\<open>ExistsObject\<close> returns what its call of \<^verbatim>\<open>HeadObject\<close> decides: true and no
  error when that call returns no error; false and no error when the error is a request
  failure with the HTTP status 404; and false with the very error of \<^verbatim>\<open>HeadObject\<close> for
  every other error, a request failure with another status and an error that is no
  request failure alike.
\<close>

theorem ExistsObject_result:
  "HeadObject key opts st = ((resp, err), st') \<Longrightarrow>
     (err = None \<longrightarrow> ExistsObject key opts st = ((True, None), st'))
     \<and> (\<forall>c m. err = Some (RequestFailure 404 c m) \<longrightarrow>
            ExistsObject key opts st = ((False, None), st'))
     \<and> (\<forall>e. err = Some e \<longrightarrow> (\<forall>c m. e \<noteq> RequestFailure 404 c m) \<longrightarrow>
            ExistsObject key opts st = ((False, Some e), st'))"
proof (intro conjI allI impI)
  assume h: "HeadObject key opts st = ((resp, err), st')"
  {
    assume "err = None"
    with h show "ExistsObject key opts st = ((True, None), st')"
      by (rule ExistsObject_cases(1))
  next
    fix c m
    assume e: "err = Some (RequestFailure 404 c m)"
    have "RequestFailure_StatusCode (RequestFailure 404 c m) = Some StatusNotFound"
      by (simp add: StatusNotFound_def)
    with h e show "ExistsObject key opts st = ((False, None), st')"
      by (rule ExistsObject_cases(2))
  next
    fix e
    assume e: "err = Some e" and other: "\<forall>c m. e \<noteq> RequestFailure 404 c m"
    from other have "RequestFailure_StatusCode e \<noteq> Some StatusNotFound"
      by (cases e) (auto simp: StatusNotFound_def)
    with h e show "ExistsObject key opts st = ((False, Some e), st')"
      by (rule ExistsObject_cases(3))
  }
qed

theorem ExistsObject_result_witness:
  "fst (ExistsObject ''cat.png'' [] (started (None, None) None)) = (True, None)
   \<and> fst (ExistsObject ''cat.png'' []
             (started (None, None) (Some (RequestFailure 404 ''NotFound'' ''Not Found''))))
       = (False, None)
   \<and> fst (ExistsObject ''cat.png'' []
             (started (None, None) (Some (RequestFailure 403 ''Forbidden'' ''Forbidden''))))
       = (False, Some (RequestFailure 403 ''Forbidden'' ''Forbidden''))
   \<and> fst (ExistsObject ''cat.png'' [] (started (None, None) (Some (ErrorString ''timeout''))))
       = (False, Some (ErrorString ''timeout''))"
proof -
  have head: "HeadObject ''cat.png'' [] (started (None, None) err)
      = ((None, err), (started (None, None) err)\<lparr>service := 1\<rparr>)" for err
    by (simp add: HeadObject_call call_def started_def double_def New_def)
  show ?thesis
    using ExistsObject_result [OF head [of None]]
      ExistsObject_result [OF head [of "Some (RequestFailure 404 ''NotFound'' ''Not Found'')"]]
      ExistsObject_result [OF head [of "Some (RequestFailure 403 ''Forbidden'' ''Forbidden'')"]]
      ExistsObject_result [OF head [of "Some (ErrorString ''timeout'')"]]
    by simp
qed

text \<open>
  Claim C2 says that for every sequence of options the request that \<^verbatim>\<open>PutObject\<close> forwards
  has the handle's bucket name, the key and the body. The options are functions on the
  request and run after the method has set these fields, so an option that assigns
  \<^verbatim>\<open>Bucket\<close> decides the bucket of the request the client receives.
\<close>

theorem PutObject_counterexample:
  "Name (bucket (recording ''photos'')) = Some ''photos''
   \<and> service (snd (PutObject ''cat.png'' (Some ''bytes'')
                     [\<lambda>req. req\<lparr>PutObjectInput.Bucket := Some ''other''\<rparr>]
                     (recording ''photos'')))
     = [PutObject_received
          \<lparr>PutObjectInput.ACL = None, PutObjectInput.Body = Some ''bytes'',
           PutObjectInput.Bucket = Some ''other'', PutObjectInput.ContentLength = None,
           PutObjectInput.ContentType = None, PutObjectInput.Key = Some ''cat.png'',
           PutObjectInput.SSEKMSKeyId = None, PutObjectInput.ServerSideEncryption = None\<rparr>]"
  by (simp add: PutObject_def Let_def call_def apply_opts_def recording_def recorder_def New_def
      aws_String_def)

text \<open>
  Claim C2, amended. \<^verbatim>\<open>PutObject(key, rs, opts...)\<close> calls the client's \<^verbatim>\<open>PutObject\<close> once,
  with the request that results from the struct holding the handle's bucket name, the key
  and the body, by running the options on it from left to right (the first option on the
  struct, every further one on the result of the one before), and returns what that call
  returns; the recording double receives exactly that request. When every option leaves
  \<^verbatim>\<open>Bucket\<close>, \<^verbatim>\<open>Key\<close> and \<^verbatim>\<open>Body\<close> as it finds them, as each of the six Put options of the
  package does, the request that is forwarded has the handle's bucket name, the key and
  the body.
\<close>

theorem PutObject_request:
  "(let req = apply_opts opts
          \<lparr>PutObjectInput.ACL = None, PutObjectInput.Body = rs,
           PutObjectInput.Bucket = Name (bucket st), PutObjectInput.ContentLength = None,
           PutObjectInput.ContentType = None, PutObjectInput.Key = Some key,
           PutObjectInput.SSEKMSKeyId = None, PutObjectInput.ServerSideEncryption = None\<rparr>
    in PutObject key rs opts st =
         (case S3API.PutObject (S3 (bucket st)) req (service st) of
            (res, sv) \<Rightarrow> (res, st\<lparr>service := sv\<rparr>))
       \<and> (list_all (\<lambda>f. \<forall>r. PutObjectInput.Bucket (f r) = PutObjectInput.Bucket r
                          \<and> PutObjectInput.Key (f r) = PutObjectInput.Key r
                          \<and> PutObjectInput.Body (f r) = PutObjectInput.Body r) opts \<longrightarrow>
            PutObjectInput.Bucket req = Name (bucket st)
            \<and> PutObjectInput.Key req = Some key
            \<and> PutObjectInput.Body req = rs))
   \<and> service (snd (PutObject key rs opts (recording name))) =
       [PutObject_received
          (apply_opts opts
             \<lparr>PutObjectInput.ACL = None, PutObjectInput.Body = rs,
              PutObjectInput.Bucket = Some name, PutObjectInput.ContentLength = None,
              PutObjectInput.ContentType = None, PutObjectInput.Key = Some key,
              PutObjectInput.SSEKMSKeyId = None, PutObjectInput.ServerSideEncryption = None\<rparr>)]
   \<and> (put_option f \<longrightarrow>
        (\<forall>r. PutObjectInput.Bucket (f r) = PutObjectInput.Bucket r
            \<and> PutObjectInput.Key (f r) = PutObjectInput.Key r
            \<and> PutObjectInput.Body (f r) = PutObjectInput.Body r))
   \<and> apply_opts [] r = r
   \<and> apply_opts (g # gs) r = apply_opts gs (g r)"
proof -
  let ?keeps = "\<lambda>f. \<forall>r. PutObjectInput.Bucket (f r) = PutObjectInput.Bucket r
                          \<and> PutObjectInput.Key (f r) = PutObjectInput.Key r
                          \<and> PutObjectInput.Body (f r) = PutObjectInput.Body r"
  let ?base = "\<lparr>PutObjectInput.ACL = None, PutObjectInput.Body = rs,
           PutObjectInput.Bucket = Name (bucket st), PutObjectInput.ContentLength = None,
           PutObjectInput.ContentType = None, PutObjectInput.Key = Some key,
           PutObjectInput.SSEKMSKeyId = None, PutObjectInput.ServerSideEncryption = None\<rparr>"
  have kept: "PutObjectInput.Bucket (apply_opts opts ?base) = Name (bucket st)
      \<and> PutObjectInput.Key (apply_opts opts ?base) = Some key
      \<and> PutObjectInput.Body (apply_opts opts ?base) = rs"
    if k: "list_all ?keeps opts"
    using apply_opts_family [OF k, of PutObjectInput.Bucket ?base]
      apply_opts_family [OF k, of PutObjectInput.Key ?base]
      apply_opts_family [OF k, of PutObjectInput.Body ?base]
    by simp
  have fwd: "PutObject key rs opts st =
         (case S3API.PutObject (S3 (bucket st)) (apply_opts opts ?base) (service st) of
            (res, sv) \<Rightarrow> (res, st\<lparr>service := sv\<rparr>))"
    by (simp add: PutObject_def Let_def call_def aws_String_def)
  have rec: "service (snd (PutObject key rs opts (recording name))) =
       [PutObject_received
          (apply_opts opts
             \<lparr>PutObjectInput.ACL = None, PutObjectInput.Body = rs,
              PutObjectInput.Bucket = Some name, PutObjectInput.ContentLength = None,
              PutObjectInput.ContentType = None, PutObjectInput.Key = Some key,
              PutObjectInput.SSEKMSKeyId = None, PutObjectInput.ServerSideEncryption = None\<rparr>)]"
    by (simp add: PutObject_def Let_def call_def recording_def recorder_def New_def aws_String_def)
  have fam: "put_option f \<longrightarrow> ?keeps f"
    by (simp add: put_option_keeps)
  from kept fwd rec fam show ?thesis
    by (simp only: Let_def apply_opts_Nil apply_opts_Cons simp_thms) blast
qed

theorem PutObject_request_witness:
  "list_all (\<lambda>f. \<forall>r. PutObjectInput.Bucket (f r) = PutObjectInput.Bucket r
                          \<and> PutObjectInput.Key (f r) = PutObjectInput.Key r
                          \<and> PutObjectInput.Body (f r) = PutObjectInput.Body r)
     [ContentType ''image/png'', ACLPublicRead :: string PutObjectOption]
   \<and> service (snd (PutObject ''cat.png'' (Some ''bytes'') [ContentType ''image/png'', ACLPublicRead]
        (recording ''photos'')))
     = [PutObject_received
         \<lparr>PutObjectInput.ACL = Some ''public-read'', PutObjectInput.Body = Some ''bytes'',
          PutObjectInput.Bucket = Some ''photos'', PutObjectInput.ContentLength = None,
          PutObjectInput.ContentType = Some ''image/png'', PutObjectInput.Key = Some ''cat.png'',
          PutObjectInput.SSEKMSKeyId = None, PutObjectInput.ServerSideEncryption = None\<rparr>]"
proof -
  have "service (snd (PutObject ''cat.png'' (Some ''bytes'') [ContentType ''image/png'', ACLPublicRead]
        (recording ''photos'')))
     = [PutObject_received
         (apply_opts [ContentType ''image/png'', ACLPublicRead]
             \<lparr>PutObjectInput.ACL = None, PutObjectInput.Body = Some ''bytes'',
              PutObjectInput.Bucket = Some ''photos'', PutObjectInput.ContentLength = None,
              PutObjectInput.ContentType = None, PutObjectInput.Key = Some ''cat.png'',
              PutObjectInput.SSEKMSKeyId = None, PutObjectInput.ServerSideEncryption = None\<rparr>)]"
    by (rule PutObject_request [THEN conjunct2, THEN conjunct1])
  then show ?thesis
    by (simp add: apply_opts_def put_defs)
qed




text \<open>
  Claim C4. Of two Put options that assign the same field, the one applied later decides
  the field, whatever the request was: each pair of constructors of this file with a
  field in common is listed, and \<^verbatim>\<open>PutObject\<close> with two content types forwards the second.
\<close>

theorem last_option_wins:
  "PutObjectInput.ContentType (ContentType b (ContentType a req)) = Some b
   \<and> PutObjectInput.ContentLength (ContentLength m (ContentLength n req)) = Some m
   \<and> PutObjectInput.ACL (ACLPublicRead (ACLPrivate req)) = Some ''public-read''
   \<and> PutObjectInput.ACL (ACLPrivate (ACLPublicRead req)) = Some ''private''
   \<and> PutObjectInput.ACL (ACLPrivate (ACLPrivate req)) = Some ''private''
   \<and> PutObjectInput.ACL (ACLPublicRead (ACLPublicRead req)) = Some ''public-read''
   \<and> PutObjectInput.SSEKMSKeyId (SSEKMSKeyID k (SSEKMSKeyID j req)) = Some k
   \<and> PutObjectInput.ServerSideEncryption (SSEKMSKeyID k (SSEKMSKeyID j req)) = Some ''aws:kms''
   \<and> PutObjectInput.ServerSideEncryption (SSES3 (SSEKMSKeyID j req)) = Some ''AES256''
   \<and> PutObjectInput.ServerSideEncryption (SSEKMSKeyID k (SSES3 req)) = Some ''aws:kms''
   \<and> PutObjectInput.ServerSideEncryption (SSES3 (SSES3 req)) = Some ''AES256''
   \<and> PutObject key rs [ContentType a, ContentType b] st =
       call S3API.PutObject
         \<lparr>PutObjectInput.ACL = None, PutObjectInput.Body = rs,
          PutObjectInput.Bucket = Name (bucket st), PutObjectInput.ContentLength = None,
          PutObjectInput.ContentType = Some b, PutObjectInput.Key = Some key,
          PutObjectInput.SSEKMSKeyId = None, PutObjectInput.ServerSideEncryption = None\<rparr> st"
  by (simp add: put_defs PutObject_call apply_opts_def)

theorem last_option_wins_witness:
  "fst (PutObject ''cat.png'' (Some ''bytes'') [ContentType ''text/plain'', ContentType ''image/png'']
          (started (None, None) None))
     = (Some \<lparr>PutObjectOutput.ETag = Some ''image/png'',
               PutObjectOutput.VersionId = Some ''cat.png''\<rparr>, None)"
  using last_option_wins [of "''image/png''" "''text/plain''" zero_PutObjectInput 0 0 "''k''" "''j''"
      "''cat.png''" "Some ''bytes''" "started (None, None) None"]
  by (simp add: call_def started_def double_def New_def aws_String_def)

text \<open>
  Claim C5 says that every method but \<^verbatim>\<open>ExistsObject\<close> returns the result and the error of
  the client as they are. \<^verbatim>\<open>GetObjectReader\<close> does not: when the client returns an output
  together with an error (the SDK's client returns its output struct also when the request
  fails), the method returns the error and no reader, and the output is dropped.
\<close>

theorem GetObjectReader_counterexample:
  "fst (GetObject ''cat.png'' []
          (started (Some \<lparr>GetObjectOutput.Body = Some ''bytes'',
                           GetObjectOutput.ContentLength = None, GetObjectOutput.ETag = None\<rparr>,
                    Some (ErrorString ''connection reset'')) None))
     = (Some \<lparr>GetObjectOutput.Body = Some ''bytes'',
               GetObjectOutput.ContentLength = None, GetObjectOutput.ETag = None\<rparr>,
        Some (ErrorString ''connection reset''))
   \<and> fst (GetObjectReader ''cat.png'' []
          (started (Some \<lparr>GetObjectOutput.Body = Some ''bytes'',
                           GetObjectOutput.ContentLength = None, GetObjectOutput.ETag = None\<rparr>,
                    Some (ErrorString ''connection reset'')) None))
     = Returned (None, Some (ErrorString ''connection reset''))"
  by (simp add: GetObjectReader_def GetObject_call call_def started_def double_def New_def)

text \<open>
  Claim C5, amended. Every method but \<^verbatim>\<open>ExistsObject\<close> and \<^verbatim>\<open>GetObjectReader\<close> returns the
  result and the error of the client as they are: for a handle with the name \<open>n\<close> there
  is one request, the same for every client and every state of the service, such that the
  method returns what one call of the client's method on that request returns, and leaves
  the service as that call leaves it. \<^verbatim>\<open>DeleteObjects\<close> forwards the list of identifiers as
  given, whatever its length. \<^verbatim>\<open>GetObjectReader\<close> returns the error of \<^verbatim>\<open>GetObject\<close> as it is
  with no reader when there is an error, and the \<^verbatim>\<open>Body\<close> of the output with no error when
  \<^verbatim>\<open>GetObject\<close> returns an output and no error.
\<close>

theorem client_result_unchanged:
  "(\<exists>req. \<forall>st. Name (bucket st) = n \<longrightarrow>
      GetObject key gopts st = call S3API.GetObject req st)
   \<and> (\<exists>req. \<forall>st. Name (bucket st) = n \<longrightarrow>
      GetObjectRequest key gopts st = call S3API.GetObjectRequest req st)
   \<and> (\<exists>req. \<forall>st. Name (bucket st) = n \<longrightarrow>
      HeadObject key hopts st = call S3API.HeadObject req st)
   \<and> (\<exists>req. \<forall>st. Name (bucket st) = n \<longrightarrow>
      PutObject key rs popts st = call S3API.PutObject req st)
   \<and> (\<exists>req. \<forall>st. Name (bucket st) = n \<longrightarrow>
      DeleteObject key st = call S3API.DeleteObject req st)
   \<and> (\<exists>req. \<forall>st. Name (bucket st) = n \<longrightarrow>
      DeleteObjects identifiers st = call S3API.DeleteObjects req st)
   \<and> (\<exists>req. \<forall>st. Name (bucket st) = n \<longrightarrow>
      ListObjects prefix lopts st = call S3API.ListObjects req st)
   \<and> (\<exists>req. \<forall>st. Name (bucket st) = n \<longrightarrow>
      ListObjectsV2PagesWithContext ctx prefix pageFunc2 l2opts st =
        call (\<lambda>s r. S3API.ListObjectsV2PagesWithContext s ctx r pageFunc2) req st)
   \<and> (\<exists>req. \<forall>st. Name (bucket st) = n \<longrightarrow>
      ListObjectVersionsPagesWithContext ctx prefix pageFuncV lvopts st =
        call (\<lambda>s r. S3API.ListObjectVersionsPagesWithContext s ctx r pageFuncV) req st)
   \<and> (\<exists>req. \<forall>st. Name (bucket st) = n \<longrightarrow>
      CopyObject dest src copts st = call S3API.CopyObject req st)
   \<and> DeleteObjects identifiers t =
       call S3API.DeleteObjects
         \<lparr>DeleteObjectsInput.Bucket = Name (bucket t),
          DeleteObjectsInput.BypassGovernanceRetention = None,
          DeleteObjectsInput.Delete = Some \<lparr>Objects = identifiers, Quiet = None\<rparr>,
          DeleteObjectsInput.ExpectedBucketOwner = None, DeleteObjectsInput.MFA = None,
          DeleteObjectsInput.RequestPayer = None\<rparr> t
   \<and> (\<forall>resp err st'. GetObject key gopts t = ((resp, err), st') \<longrightarrow> err \<noteq> None \<longrightarrow>
        GetObjectReader key gopts t = (Returned (None, err), st'))
   \<and> (\<forall>r st'. GetObject key gopts t = ((Some r, None), st') \<longrightarrow>
        GetObjectReader key gopts t = (Returned (GetObjectOutput.Body r, None), st'))"
proof -
  have 1: "\<exists>req. \<forall>st. Name (bucket st) = n \<longrightarrow>
      GetObject key gopts st = call S3API.GetObject req st"
    by (rule exI, intro allI impI, subst GetObject_call, simp)
  have 2: "\<exists>req. \<forall>st. Name (bucket st) = n \<longrightarrow>
      GetObjectRequest key gopts st = call S3API.GetObjectRequest req st"
    by (rule exI, intro allI impI, subst GetObjectRequest_call, simp)
  have 3: "\<exists>req. \<forall>st. Name (bucket st) = n \<longrightarrow>
      HeadObject key hopts st = call S3API.HeadObject req st"
    by (rule exI, intro allI impI, subst HeadObject_call, simp)
  have 4: "\<exists>req. \<forall>st. Name (bucket st) = n \<longrightarrow>
      PutObject key rs popts st = call S3API.PutObject req st"
    by (rule exI, intro allI impI, subst PutObject_call, simp)
  have 5: "\<exists>req. \<forall>st. Name (bucket st) = n \<longrightarrow>
      DeleteObject key st = call S3API.DeleteObject req st"
    by (rule exI, intro allI impI, subst DeleteObject_call, simp)
  have 6: "\<exists>req. \<forall>st. Name (bucket st) = n \<longrightarrow>
      DeleteObjects identifiers st = call S3API.DeleteObjects req st"
    by (rule exI, intro allI impI, subst DeleteObjects_call, simp)
  have 7: "\<exists>req. \<forall>st. Name (bucket st) = n \<longrightarrow>
      ListObjects prefix lopts st = call S3API.ListObjects req st"
    by (rule exI, intro allI impI, subst ListObjects_call, simp)
  have 8: "\<exists>req. \<forall>st. Name (bucket st) = n \<longrightarrow>
      ListObjectsV2PagesWithContext ctx prefix pageFunc2 l2opts st =
        call (\<lambda>s r. S3API.ListObjectsV2PagesWithContext s ctx r pageFunc2) req st"
    by (rule exI, intro allI impI, subst ListObjectsV2PagesWithContext_call, simp)
  have 9: "\<exists>req. \<forall>st. Name (bucket st) = n \<longrightarrow>
      ListObjectVersionsPagesWithContext ctx prefix pageFuncV lvopts st =
        call (\<lambda>s r. S3API.ListObjectVersionsPagesWithContext s ctx r pageFuncV) req st"
    by (rule exI, intro allI impI, subst ListObjectVersionsPagesWithContext_call, simp)
  have 10: "\<exists>req. \<forall>st. Name (bucket st) = n \<longrightarrow>
      CopyObject dest src copts st = call S3API.CopyObject req st"
    by (rule exI, intro allI impI, subst CopyObject_call, simp)
  have 11: "\<forall>resp err st'. GetObject key gopts t = ((resp, err), st') \<longrightarrow> err \<noteq> None \<longrightarrow>
        GetObjectReader key gopts t = (Returned (None, err), st')"
    by (simp add: GetObjectReader_def)
  have 12: "\<forall>r st'. GetObject key gopts t = ((Some r, None), st') \<longrightarrow>
        GetObjectReader key gopts t = (Returned (GetObjectOutput.Body r, None), st')"
    by (simp add: GetObjectReader_def)
  show ?thesis
    by (intro conjI 1 2 3 4 5 6 7 8 9 10 11 12 DeleteObjects_call)
qed

theorem client_result_unchanged_witness:
  "fst (GetObjectReader ''cat.png'' []
          (started (Some \<lparr>GetObjectOutput.Body = Some ''bytes'',
                           GetObjectOutput.ContentLength = None, GetObjectOutput.ETag = None\<rparr>,
                    None) None))
     = Returned (Some ''bytes'', None)
   \<and> fst (GetObjectReader ''cat.png'' []
          (started (None, Some (ErrorString ''connection reset'')) None))
     = Returned (None, Some (ErrorString ''connection reset''))
   \<and> fst (DeleteObjects (replicate 1001 None) (started (None, None) None))
     = (Some \<lparr>Deleted = replicate 1001 None\<rparr>, None)"
proof -
  have get: "GetObject ''cat.png'' [] (started got None)
      = (got, (started got None)\<lparr>service := 1\<rparr>)" for got
    by (simp add: GetObject_call call_def started_def double_def New_def)
  let ?ok = "started (Some \<lparr>GetObjectOutput.Body = Some ''bytes'',
      GetObjectOutput.ContentLength = None, GetObjectOutput.ETag = None\<rparr>, None) None"
  let ?failed = "started (None, Some (ErrorString ''connection reset'')) None"
  have a: "fst (GetObjectReader ''cat.png'' [] ?ok) = Returned (Some ''bytes'', None)"
    using client_result_unchanged [where key = "''cat.png''" and gopts = "[]" and t = ?ok,
        THEN conjunct2, THEN conjunct2, THEN conjunct2,
        THEN conjunct2, THEN conjunct2, THEN conjunct2, THEN conjunct2, THEN conjunct2,
        THEN conjunct2, THEN conjunct2]
    by (simp add: get)
  have b: "fst (GetObjectReader ''cat.png'' [] ?failed)
      = Returned (None, Some (ErrorString ''connection reset''))"
    using client_result_unchanged [where key = "''cat.png''" and gopts = "[]" and t = ?failed,
        THEN conjunct2, THEN conjunct2, THEN conjunct2,
        THEN conjunct2, THEN conjunct2, THEN conjunct2, THEN conjunct2, THEN conjunct2,
        THEN conjunct2, THEN conjunct2]
    by (simp add: get)
  have c: "fst (DeleteObjects (replicate 1001 None) (started (None, None) None))
     = (Some \<lparr>Deleted = replicate 1001 None\<rparr>, None)"
    using client_result_unchanged [where identifiers = "replicate 1001 None"
        and t = "started (None, None) None", THEN conjunct2, THEN conjunct2, THEN conjunct2,
        THEN conjunct2, THEN conjunct2, THEN conjunct2, THEN conjunct2, THEN conjunct2,
        THEN conjunct2, THEN conjunct2, THEN conjunct1]
    by (simp add: call_def started_def double_def New_def)
  from a b c show ?thesis by simp
qed

text \<open>
  Claim C6. For each method that builds a request and takes options (\<^verbatim>\<open>GetObject\<close>,
  \<^verbatim>\<open>GetObjectRequest\<close>, \<^verbatim>\<open>HeadObject\<close>, \<^verbatim>\<open>PutObject\<close>, \<^verbatim>\<open>ListObjects\<close>, the two paged
  listings, \<^verbatim>\<open>CopyObject\<close>) and a handle with the name \<open>n\<close> there is a request that has the
  bucket name \<open>n\<close> and the key or prefix of the call, such that for every list of options,
  every client and every state of the service the method calls the client once with the
  options run on that request, and such that options of the method's family leave the
  bucket name and the key or prefix of the request the client receives as they were set.
  Every option of the families provided leaves these two fields as it finds them.
\<close>

theorem bucket_and_key_kept:
  "(\<exists>base.
       GetObjectInput.Bucket base = n \<and> GetObjectInput.Key base = Some key
       \<and> (\<forall>opts s w.
             GetObject key opts \<lparr>bucket = \<lparr>S3 = s, Name = n\<rparr>, service = w\<rparr> =
               (case S3API.GetObject s (apply_opts opts base) w of
                  (res, sv) \<Rightarrow> (res, \<lparr>bucket = \<lparr>S3 = s, Name = n\<rparr>, service = sv\<rparr>)))
       \<and> (\<forall>opts. list_all get_option opts \<longrightarrow>
             GetObjectInput.Bucket (apply_opts opts base) = n
             \<and> GetObjectInput.Key (apply_opts opts base) = Some key))
   \<and> (\<exists>base.
       GetObjectInput.Bucket base = n \<and> GetObjectInput.Key base = Some key
       \<and> (\<forall>opts s w.
             GetObjectRequest key opts \<lparr>bucket = \<lparr>S3 = s, Name = n\<rparr>, service = w\<rparr> =
               (case S3API.GetObjectRequest s (apply_opts opts base) w of
                  (res, sv) \<Rightarrow> (res, \<lparr>bucket = \<lparr>S3 = s, Name = n\<rparr>, service = sv\<rparr>)))
       \<and> (\<forall>opts. list_all get_option opts \<longrightarrow>
             GetObjectInput.Bucket (apply_opts opts base) = n
             \<and> GetObjectInput.Key (apply_opts opts base) = Some key))
   \<and> (\<exists>base.
       HeadObjectInput.Bucket base = n \<and> HeadObjectInput.Key base = Some key
       \<and> (\<forall>opts s w.
             HeadObject key opts \<lparr>bucket = \<lparr>S3 = s, Name = n\<rparr>, service = w\<rparr> =
               (case S3API.HeadObject s (apply_opts opts base) w of
                  (res, sv) \<Rightarrow> (res, \<lparr>bucket = \<lparr>S3 = s, Name = n\<rparr>, service = sv\<rparr>)))
       \<and> (\<forall>opts. list_all head_option opts \<longrightarrow>
             HeadObjectInput.Bucket (apply_opts opts base) = n
             \<and> HeadObjectInput.Key (apply_opts opts base) = Some key))
   \<and> (\<exists>base.
       PutObjectInput.Bucket base = n \<and> PutObjectInput.Key base = Some key
       \<and> (\<forall>opts s w.
             PutObject key rs opts \<lparr>bucket = \<lparr>S3 = s, Name = n\<rparr>, service = w\<rparr> =
               (case S3API.PutObject s (apply_opts opts base) w of
                  (res, sv) \<Rightarrow> (res, \<lparr>bucket = \<lparr>S3 = s, Name = n\<rparr>, service = sv\<rparr>)))
       \<and> (\<forall>opts. list_all put_option opts \<longrightarrow>
             PutObjectInput.Bucket (apply_opts opts base) = n
             \<and> PutObjectInput.Key (apply_opts opts base) = Some key))
   \<and> (\<exists>base.
       ListObjectsInput.Bucket base = n \<and> ListObjectsInput.Prefix base = Some prefix
       \<and> (\<forall>opts s w.
             ListObjects prefix opts \<lparr>bucket = \<lparr>S3 = s, Name = n\<rparr>, service = w\<rparr> =
               (case S3API.ListObjects s (apply_opts opts base) w of
                  (res, sv) \<Rightarrow> (res, \<lparr>bucket = \<lparr>S3 = s, Name = n\<rparr>, service = sv\<rparr>)))
       \<and> (\<forall>opts. list_all list_option opts \<longrightarrow>
             ListObjectsInput.Bucket (apply_opts opts base) = n
             \<and> ListObjectsInput.Prefix (apply_opts opts base) = Some prefix))
   \<and> (\<exists>base.
       ListObjectsV2Input.Bucket base = n \<and> ListObjectsV2Input.Prefix base = Some prefix
       \<and> (\<forall>opts s w.
             ListObjectsV2PagesWithContext ctx prefix pageFunc2 opts \<lparr>bucket = \<lparr>S3 = s, Name = n\<rparr>, service = w\<rparr> =
               (case S3API.ListObjectsV2PagesWithContext s ctx (apply_opts opts base) pageFunc2 w of
                  (res, sv) \<Rightarrow> (res, \<lparr>bucket = \<lparr>S3 = s, Name = n\<rparr>, service = sv\<rparr>)))
       \<and> (\<forall>opts. list_all list_v2_option opts \<longrightarrow>
             ListObjectsV2Input.Bucket (apply_opts opts base) = n
             \<and> ListObjectsV2Input.Prefix (apply_opts opts base) = Some prefix))
   \<and> (\<exists>base.
       ListObjectVersionsInput.Bucket base = n \<and> ListObjectVersionsInput.Prefix base = Some prefix
       \<and> (\<forall>opts s w.
             ListObjectVersionsPagesWithContext ctx prefix pageFuncV opts \<lparr>bucket = \<lparr>S3 = s, Name = n\<rparr>, service = w\<rparr> =
               (case S3API.ListObjectVersionsPagesWithContext s ctx (apply_opts opts base) pageFuncV w of
                  (res, sv) \<Rightarrow> (res, \<lparr>bucket = \<lparr>S3 = s, Name = n\<rparr>, service = sv\<rparr>)))
       \<and> (\<forall>opts. list_all list_versions_option opts \<longrightarrow>
             ListObjectVersionsInput.Bucket (apply_opts opts base) = n
             \<and> ListObjectVersionsInput.Prefix (apply_opts opts base) = Some prefix))
   \<and> (\<exists>base.
       CopyObjectInput.Bucket base = n \<and> CopyObjectInput.Key base = Some dest
       \<and> (\<forall>opts s w.
             CopyObject dest src opts \<lparr>bucket = \<lparr>S3 = s, Name = n\<rparr>, service = w\<rparr> =
               (case S3API.CopyObject s (apply_opts opts base) w of
                  (res, sv) \<Rightarrow> (res, \<lparr>bucket = \<lparr>S3 = s, Name = n\<rparr>, service = sv\<rparr>)))
       \<and> (\<forall>opts. list_all copy_option opts \<longrightarrow>
             CopyObjectInput.Bucket (apply_opts opts base) = n
             \<and> CopyObjectInput.Key (apply_opts opts base) = Some dest))
   \<and> (put_option pf \<longrightarrow>
        PutObjectInput.Bucket (pf pr) = PutObjectInput.Bucket pr
        \<and> PutObjectInput.Key (pf pr) = PutObjectInput.Key pr)
   \<and> (get_option gf \<longrightarrow>
        GetObjectInput.Bucket (gf gr) = GetObjectInput.Bucket gr
        \<and> GetObjectInput.Key (gf gr) = GetObjectInput.Key gr)
   \<and> (head_option hf \<longrightarrow>
        HeadObjectInput.Bucket (hf hr) = HeadObjectInput.Bucket hr
        \<and> HeadObjectInput.Key (hf hr) = HeadObjectInput.Key hr)
   \<and> (list_option lf \<longrightarrow>
        ListObjectsInput.Bucket (lf lr) = ListObjectsInput.Bucket lr
        \<and> ListObjectsInput.Prefix (lf lr) = ListObjectsInput.Prefix lr)
   \<and> (list_v2_option l2f \<longrightarrow>
        ListObjectsV2Input.Bucket (l2f l2r) = ListObjectsV2Input.Bucket l2r
        \<and> ListObjectsV2Input.Prefix (l2f l2r) = ListObjectsV2Input.Prefix l2r)
   \<and> (list_versions_option lvf \<longrightarrow>
        ListObjectVersionsInput.Bucket (lvf lvr) = ListObjectVersionsInput.Bucket lvr
        \<and> ListObjectVersionsInput.Prefix (lvf lvr) = ListObjectVersionsInput.Prefix lvr)
   \<and> (copy_option cf \<longrightarrow>
        CopyObjectInput.Bucket (cf cr) = CopyObjectInput.Bucket cr
        \<and> CopyObjectInput.Key (cf cr) = CopyObjectInput.Key cr)"
proof -
  have m1: "(\<exists>base.
       GetObjectInput.Bucket base = n \<and> GetObjectInput.Key base = Some key
       \<and> (\<forall>opts s w.
             GetObject key opts \<lparr>bucket = \<lparr>S3 = s, Name = n\<rparr>, service = w\<rparr> =
               (case S3API.GetObject s (apply_opts opts base) w of
                  (res, sv) \<Rightarrow> (res, \<lparr>bucket = \<lparr>S3 = s, Name = n\<rparr>, service = sv\<rparr>)))
       \<and> (\<forall>opts. list_all get_option opts \<longrightarrow>
             GetObjectInput.Bucket (apply_opts opts base) = n
             \<and> GetObjectInput.Key (apply_opts opts base) = Some key))"
    by (rule exI [where x = "\<lparr>GetObjectInput.Bucket = n, GetObjectInput.IfMatch = None,
          GetObjectInput.IfNoneMatch = None, GetObjectInput.Key = Some key,
          GetObjectInput.Range = None, GetObjectInput.VersionId = None\<rparr>"])
      (simp add: GetObject_def Let_def call_def aws_String_def get_option_keeps
         apply_opts_family [where fam = get_option])
  have m2: "(\<exists>base.
       GetObjectInput.Bucket base = n \<and> GetObjectInput.Key base = Some key
       \<and> (\<forall>opts s w.
             GetObjectRequest key opts \<lparr>bucket = \<lparr>S3 = s, Name = n\<rparr>, service = w\<rparr> =
               (case S3API.GetObjectRequest s (apply_opts opts base) w of
                  (res, sv) \<Rightarrow> (res, \<lparr>bucket = \<lparr>S3 = s, Name = n\<rparr>, service = sv\<rparr>)))
       \<and> (\<forall>opts. list_all get_option opts \<longrightarrow>
             GetObjectInput.Bucket (apply_opts opts base) = n
             \<and> GetObjectInput.Key (apply_opts opts base) = Some key))"
    by (rule exI [where x = "\<lparr>GetObjectInput.Bucket = n, GetObjectInput.IfMatch = None,
          GetObjectInput.IfNoneMatch = None, GetObjectInput.Key = Some key,
          GetObjectInput.Range = None, GetObjectInput.VersionId = None\<rparr>"])
      (simp add: GetObjectRequest_def Let_def call_def aws_String_def get_option_keeps
         apply_opts_family [where fam = get_option])
  have m3: "(\<exists>base.
       HeadObjectInput.Bucket base = n \<and> HeadObjectInput.Key base = Some key
       \<and> (\<forall>opts s w.
             HeadObject key opts \<lparr>bucket = \<lparr>S3 = s, Name = n\<rparr>, service = w\<rparr> =
               (case S3API.HeadObject s (apply_opts opts base) w of
                  (res, sv) \<Rightarrow> (res, \<lparr>bucket = \<lparr>S3 = s, Name = n\<rparr>, service = sv\<rparr>)))
       \<and> (\<forall>opts. list_all head_option opts \<longrightarrow>
             HeadObjectInput.Bucket (apply_opts opts base) = n
             \<and> HeadObjectInput.Key (apply_opts opts base) = Some key))"
    by (rule exI [where x = "\<lparr>HeadObjectInput.Bucket = n, HeadObjectInput.IfMatch = None,
          HeadObjectInput.IfNoneMatch = None, HeadObjectInput.Key = Some key,
          HeadObjectInput.Range = None, HeadObjectInput.VersionId = None\<rparr>"])
      (simp add: HeadObject_def Let_def call_def aws_String_def head_option_keeps
         apply_opts_family [where fam = head_option])
  have m4: "(\<exists>base.
       PutObjectInput.Bucket base = n \<and> PutObjectInput.Key base = Some key
       \<and> (\<forall>opts s w.
             PutObject key rs opts \<lparr>bucket = \<lparr>S3 = s, Name = n\<rparr>, service = w\<rparr> =
               (case S3API.PutObject s (apply_opts opts base) w of
                  (res, sv) \<Rightarrow> (res, \<lparr>bucket = \<lparr>S3 = s, Name = n\<rparr>, service = sv\<rparr>)))
       \<and> (\<forall>opts. list_all put_option opts \<longrightarrow>
             PutObjectInput.Bucket (apply_opts opts base) = n
             \<and> PutObjectInput.Key (apply_opts opts base) = Some key))"
    by (rule exI [where x = "\<lparr>PutObjectInput.ACL = None, PutObjectInput.Body = rs,
          PutObjectInput.Bucket = n, PutObjectInput.ContentLength = None,
          PutObjectInput.ContentType = None, PutObjectInput.Key = Some key,
          PutObjectInput.SSEKMSKeyId = None, PutObjectInput.ServerSideEncryption = None\<rparr>"])
      (simp add: PutObject_def Let_def call_def aws_String_def put_option_keeps
         apply_opts_family [where fam = put_option])
  have m5: "(\<exists>base.
       ListObjectsInput.Bucket base = n \<and> ListObjectsInput.Prefix base = Some prefix
       \<and> (\<forall>opts s w.
             ListObjects prefix opts \<lparr>bucket = \<lparr>S3 = s, Name = n\<rparr>, service = w\<rparr> =
               (case S3API.ListObjects s (apply_opts opts base) w of
                  (res, sv) \<Rightarrow> (res, \<lparr>bucket = \<lparr>S3 = s, Name = n\<rparr>, service = sv\<rparr>)))
       \<and> (\<forall>opts. list_all list_option opts \<longrightarrow>
             ListObjectsInput.Bucket (apply_opts opts base) = n
             \<and> ListObjectsInput.Prefix (apply_opts opts base) = Some prefix))"
    by (rule exI [where x = "\<lparr>ListObjectsInput.Bucket = n, ListObjectsInput.Delimiter = None,
          ListObjectsInput.EncodingType = None, ListObjectsInput.Marker = None,
          ListObjectsInput.MaxKeys = None, ListObjectsInput.Prefix = Some prefix\<rparr>"])
      (simp add: ListObjects_def Let_def call_def aws_String_def list_option_keeps
         apply_opts_family [where fam = list_option])
  have m6: "(\<exists>base.
       ListObjectsV2Input.Bucket base = n \<and> ListObjectsV2Input.Prefix base = Some prefix
       \<and> (\<forall>opts s w.
             ListObjectsV2PagesWithContext ctx prefix pageFunc2 opts \<lparr>bucket = \<lparr>S3 = s, Name = n\<rparr>, service = w\<rparr> =
               (case S3API.ListObjectsV2PagesWithContext s ctx (apply_opts opts base) pageFunc2 w of
                  (res, sv) \<Rightarrow> (res, \<lparr>bucket = \<lparr>S3 = s, Name = n\<rparr>, service = sv\<rparr>)))
       \<and> (\<forall>opts. list_all list_v2_option opts \<longrightarrow>
             ListObjectsV2Input.Bucket (apply_opts opts base) = n
             \<and> ListObjectsV2Input.Prefix (apply_opts opts base) = Some prefix))"
    by (rule exI [where x = "\<lparr>ListObjectsV2Input.Bucket = n, ListObjectsV2Input.ContinuationToken = None,
          ListObjectsV2Input.Delimiter = None, ListObjectsV2Input.EncodingType = None,
          ListObjectsV2Input.MaxKeys = None, ListObjectsV2Input.Prefix = Some prefix,
          ListObjectsV2Input.StartAfter = None\<rparr>"])
      (simp add: ListObjectsV2PagesWithContext_def Let_def call_def aws_String_def list_v2_option_keeps
         apply_opts_family [where fam = list_v2_option])
  have m7: "(\<exists>base.
       ListObjectVersionsInput.Bucket base = n \<and> ListObjectVersionsInput.Prefix base = Some prefix
       \<and> (\<forall>opts s w.
             ListObjectVersionsPagesWithContext ctx prefix pageFuncV opts \<lparr>bucket = \<lparr>S3 = s, Name = n\<rparr>, service = w\<rparr> =
               (case S3API.ListObjectVersionsPagesWithContext s ctx (apply_opts opts base) pageFuncV w of
                  (res, sv) \<Rightarrow> (res, \<lparr>bucket = \<lparr>S3 = s, Name = n\<rparr>, service = sv\<rparr>)))
       \<and> (\<forall>opts. list_all list_versions_option opts \<longrightarrow>
             ListObjectVersionsInput.Bucket (apply_opts opts base) = n
             \<and> ListObjectVersionsInput.Prefix (apply_opts opts base) = Some prefix))"
    by (rule exI [where x = "\<lparr>ListObjectVersionsInput.Bucket = n, ListObjectVersionsInput.Delimiter = None,
          ListObjectVersionsInput.EncodingType = None, ListObjectVersionsInput.KeyMarker = None,
          ListObjectVersionsInput.MaxKeys = None, ListObjectVersionsInput.Prefix = Some prefix,
          ListObjectVersionsInput.VersionIdMarker = None\<rparr>"])
      (simp add: ListObjectVersionsPagesWithContext_def Let_def call_def aws_String_def list_versions_option_keeps
         apply_opts_family [where fam = list_versions_option])
  have m8: "(\<exists>base.
       CopyObjectInput.Bucket base = n \<and> CopyObjectInput.Key base = Some dest
       \<and> (\<forall>opts s w.
             CopyObject dest src opts \<lparr>bucket = \<lparr>S3 = s, Name = n\<rparr>, service = w\<rparr> =
               (case S3API.CopyObject s (apply_opts opts base) w of
                  (res, sv) \<Rightarrow> (res, \<lparr>bucket = \<lparr>S3 = s, Name = n\<rparr>, service = sv\<rparr>)))
       \<and> (\<forall>opts. list_all copy_option opts \<longrightarrow>
             CopyObjectInput.Bucket (apply_opts opts base) = n
             \<and> CopyObjectInput.Key (apply_opts opts base) = Some dest))"
    by (rule exI [where x = "\<lparr>CopyObjectInput.ACL = None, CopyObjectInput.Bucket = n,
          CopyObjectInput.ContentType = None,
          CopyObjectInput.CopySource = Some (aws_StringValue n @ ''/'' @ QueryEscape src),
          CopyObjectInput.Key = Some dest, CopyObjectInput.MetadataDirective = None,
          CopyObjectInput.SSEKMSKeyId = None, CopyObjectInput.ServerSideEncryption = None\<rparr>"])
      (simp add: CopyObject_def Let_def call_def aws_String_def copy_option_keeps
         apply_opts_family [where fam = copy_option])
  have f1: "(put_option pf \<longrightarrow>
        PutObjectInput.Bucket (pf pr) = PutObjectInput.Bucket pr
        \<and> PutObjectInput.Key (pf pr) = PutObjectInput.Key pr)"
    by (simp add: put_option_keeps)
  have f2: "(get_option gf \<longrightarrow>
        GetObjectInput.Bucket (gf gr) = GetObjectInput.Bucket gr
        \<and> GetObjectInput.Key (gf gr) = GetObjectInput.Key gr)"
    by (simp add: get_option_keeps)
  have f3: "(head_option hf \<longrightarrow>
        HeadObjectInput.Bucket (hf hr) = HeadObjectInput.Bucket hr
        \<and> HeadObjectInput.Key (hf hr) = HeadObjectInput.Key hr)"
    by (simp add: head_option_keeps)
  have f4: "(list_option lf \<longrightarrow>
        ListObjectsInput.Bucket (lf lr) = ListObjectsInput.Bucket lr
        \<and> ListObjectsInput.Prefix (lf lr) = ListObjectsInput.Prefix lr)"
    by (simp add: list_option_keeps)
  have f5: "(list_v2_option l2f \<longrightarrow>
        ListObjectsV2Input.Bucket (l2f l2r) = ListObjectsV2Input.Bucket l2r
        \<and> ListObjectsV2Input.Prefix (l2f l2r) = ListObjectsV2Input.Prefix l2r)"
    by (simp add: list_v2_option_keeps)
  have f6: "(list_versions_option lvf \<longrightarrow>
        ListObjectVersionsInput.Bucket (lvf lvr) = ListObjectVersionsInput.Bucket lvr
        \<and> ListObjectVersionsInput.Prefix (lvf lvr) = ListObjectVersionsInput.Prefix lvr)"
    by (simp add: list_versions_option_keeps)
  have f7: "(copy_option cf \<longrightarrow>
        CopyObjectInput.Bucket (cf cr) = CopyObjectInput.Bucket cr
        \<and> CopyObjectInput.Key (cf cr) = CopyObjectInput.Key cr)"
    by (simp add: copy_option_keeps)
  show ?thesis
    by (intro conjI m1 m2 m3 m4 m5 m6 m7 m8 f1 f2 f3 f4 f5 f6 f7)
qed


theorem bucket_and_key_kept_witness:
  "list_all put_option [SSES3, ContentLength 5 :: string PutObjectOption]
   \<and> list_all get_option [\<lambda>req. req\<lparr>GetObjectInput.Range := Some ''bytes=0-9''\<rparr>]
   \<and> (\<exists>req. service (snd (PutObject ''cat.png'' (Some ''bytes'') [SSES3, ContentLength 5]
                              (recording ''photos'' :: ((unit, string) received list, unit, string, string) state))) = [PutObject_received req]
          \<and> PutObjectInput.Bucket req = Some ''photos''
          \<and> PutObjectInput.Key req = Some ''cat.png'')
   \<and> (\<exists>req. service (snd (GetObject ''cat.png''
                              [\<lambda>req. req\<lparr>GetObjectInput.Range := Some ''bytes=0-9''\<rparr>]
                              (recording ''photos'' :: ((unit, string) received list, unit, string, string) state))) = [GetObject_received req]
          \<and> GetObjectInput.Bucket req = Some ''photos''
          \<and> GetObjectInput.Key req = Some ''cat.png'')
   \<and> service (snd (PutObject ''cat.png'' (Some ''bytes'') [SSES3, ContentLength 5]
                     (recording ''photos'' :: ((unit, string) received list, unit, string, string) state)))
     = [PutObject_received
          \<lparr>PutObjectInput.ACL = None, PutObjectInput.Body = Some ''bytes'',
           PutObjectInput.Bucket = Some ''photos'', PutObjectInput.ContentLength = Some 5,
           PutObjectInput.ContentType = None, PutObjectInput.Key = Some ''cat.png'',
           PutObjectInput.SSEKMSKeyId = None,
           PutObjectInput.ServerSideEncryption = Some ''AES256''\<rparr>]
   \<and> service (snd (GetObject ''cat.png''
                     [\<lambda>req. req\<lparr>GetObjectInput.Range := Some ''bytes=0-9''\<rparr>]
                     (recording ''photos'' :: ((unit, string) received list, unit, string, string) state)))
     = [GetObject_received
          \<lparr>GetObjectInput.Bucket = Some ''photos'', GetObjectInput.IfMatch = None,
           GetObjectInput.IfNoneMatch = None, GetObjectInput.Key = Some ''cat.png'',
           GetObjectInput.Range = Some ''bytes=0-9'', GetObjectInput.VersionId = None\<rparr>]"
proof -
  let ?popts = "[SSES3, ContentLength 5] :: string PutObjectOption list"
  let ?gopts = "[\<lambda>req. req\<lparr>GetObjectInput.Range := Some ''bytes=0-9''\<rparr>]"
  have state: "recording ''photos'' =
      \<lparr>bucket = \<lparr>S3 = recorder, Name = Some ''photos''\<rparr>, service = []\<rparr>"
    by (simp add: recording_def New_def aws_String_def)
  have p: "list_all put_option ?popts"
    by (simp add: put_option.intros)
  have g: "list_all get_option ?gopts"
    by (simp add: get_option.intros)
  obtain pbase :: "string PutObjectInput" where
    pcall: "\<And>opts (s :: ((unit, string) received list, unit, string, string) S3API) w.
      PutObject ''cat.png'' (Some ''bytes'') opts
          \<lparr>bucket = \<lparr>S3 = s, Name = Some ''photos''\<rparr>, service = w\<rparr> =
        (case S3API.PutObject s (apply_opts opts pbase) w of
           (res, sv) \<Rightarrow> (res, \<lparr>bucket = \<lparr>S3 = s, Name = Some ''photos''\<rparr>, service = sv\<rparr>))"
    and pkept: "\<And>opts. list_all put_option opts \<Longrightarrow>
      PutObjectInput.Bucket (apply_opts opts pbase) = Some ''photos''
      \<and> PutObjectInput.Key (apply_opts opts pbase) = Some ''cat.png''"
    using bucket_and_key_kept [where n = "Some ''photos''" and key = "''cat.png''"
        and rs = "Some ''bytes''", THEN conjunct2, THEN conjunct2, THEN conjunct2, THEN conjunct1]
    by blast
  obtain gbase :: GetObjectInput where
    gcall: "\<And>opts (s :: ((unit, string) received list, unit, string, string) S3API) w.
      GetObject ''cat.png'' opts
          \<lparr>bucket = \<lparr>S3 = s, Name = Some ''photos''\<rparr>, service = w\<rparr> =
        (case S3API.GetObject s (apply_opts opts gbase) w of
           (res, sv) \<Rightarrow> (res, \<lparr>bucket = \<lparr>S3 = s, Name = Some ''photos''\<rparr>, service = sv\<rparr>))"
    and gkept: "\<And>opts. list_all get_option opts \<Longrightarrow>
      GetObjectInput.Bucket (apply_opts opts gbase) = Some ''photos''
      \<and> GetObjectInput.Key (apply_opts opts gbase) = Some ''cat.png''"
    using bucket_and_key_kept [where n = "Some ''photos''" and key = "''cat.png''",
        THEN conjunct1]
    by blast
  have pr: "service (snd (PutObject ''cat.png'' (Some ''bytes'') ?popts
      (recording ''photos'' :: ((unit, string) received list, unit, string, string) state)))
      = [PutObject_received (apply_opts ?popts pbase)]"
    by (simp add: state pcall recorder_def)
  have gr: "service (snd (GetObject ''cat.png'' ?gopts
      (recording ''photos'' :: ((unit, string) received list, unit, string, string) state)))
      = [GetObject_received (apply_opts ?gopts gbase)]"
    by (simp add: state gcall recorder_def)
  have pfull: "service (snd (PutObject ''cat.png'' (Some ''bytes'') ?popts
      (recording ''photos'' :: ((unit, string) received list, unit, string, string) state)))
     = [PutObject_received
          \<lparr>PutObjectInput.ACL = None, PutObjectInput.Body = Some ''bytes'',
           PutObjectInput.Bucket = Some ''photos'', PutObjectInput.ContentLength = Some 5,
           PutObjectInput.ContentType = None, PutObjectInput.Key = Some ''cat.png'',
           PutObjectInput.SSEKMSKeyId = None,
           PutObjectInput.ServerSideEncryption = Some ''AES256''\<rparr>]"
    by (simp add: PutObject_def Let_def call_def apply_opts_def put_defs recording_def
        recorder_def New_def)
  have gfull: "service (snd (GetObject ''cat.png'' ?gopts
      (recording ''photos'' :: ((unit, string) received list, unit, string, string) state)))
     = [GetObject_received
          \<lparr>GetObjectInput.Bucket = Some ''photos'', GetObjectInput.IfMatch = None,
           GetObjectInput.IfNoneMatch = None, GetObjectInput.Key = Some ''cat.png'',
           GetObjectInput.Range = Some ''bytes=0-9'', GetObjectInput.VersionId = None\<rparr>]"
    by (simp add: GetObject_def Let_def call_def apply_opts_def recording_def recorder_def
        New_def aws_String_def)
  from pr pkept [OF p] have pex: "\<exists>req. service (snd (PutObject ''cat.png'' (Some ''bytes'') ?popts
      (recording ''photos'' :: ((unit, string) received list, unit, string, string) state)))
        = [PutObject_received req]
      \<and> PutObjectInput.Bucket req = Some ''photos''
      \<and> PutObjectInput.Key req = Some ''cat.png''"
    by blast
  from gr gkept [OF g] have gex: "\<exists>req. service (snd (GetObject ''cat.png'' ?gopts
      (recording ''photos'' :: ((unit, string) received list, unit, string, string) state)))
        = [GetObject_received req]
      \<and> GetObjectInput.Bucket req = Some ''photos''
      \<and> GetObjectInput.Key req = Some ''cat.png''"
    by blast
  from p g pex gex pfull gfull show ?thesis by (intro conjI)
qed

text \<open>
  Claim C7. \<^verbatim>\<open>DeleteObjects\<close> with an empty list of identifiers does not return early: it
  calls the client once, with the request that names the handle's bucket and holds the
  empty list, and returns what the client returns.
\<close>

theorem DeleteObjects_empty:
  "DeleteObjects [] st =
     call S3API.DeleteObjects
       \<lparr>DeleteObjectsInput.Bucket = Name (bucket st),
        DeleteObjectsInput.BypassGovernanceRetention = None,
        DeleteObjectsInput.Delete = Some \<lparr>Objects = [], Quiet = None\<rparr>,
        DeleteObjectsInput.ExpectedBucketOwner = None, DeleteObjectsInput.MFA = None,
        DeleteObjectsInput.RequestPayer = None\<rparr> st"
  by (rule DeleteObjects_call)

theorem DeleteObjects_empty_witness:
  "DeleteObjects [] (started (None, None) None)
     = ((Some \<lparr>Deleted = []\<rparr>, None), (started (None, None) None)\<lparr>service := 1\<rparr>)"
  using DeleteObjects_empty [of "started (None, None) None"]
  by (simp add: call_def started_def double_def New_def)

text \<open>
  Claim C8. \<^verbatim>\<open>DeleteObject(key)\<close> takes no options. It calls the client's \<^verbatim>\<open>DeleteObject\<close>
  once, on the service as it is, with the request that has the handle's bucket name and
  the key and every other field at its zero value, and returns what that call returns.
  The recording double receives exactly that request.
\<close>

theorem DeleteObject_request:
  "DeleteObject key st =
     (case S3API.DeleteObject (S3 (bucket st))
             \<lparr>DeleteObjectInput.Bucket = Name (bucket st),
              DeleteObjectInput.BypassGovernanceRetention = None,
              DeleteObjectInput.ExpectedBucketOwner = None, DeleteObjectInput.Key = Some key,
              DeleteObjectInput.MFA = None, DeleteObjectInput.RequestPayer = None,
              DeleteObjectInput.VersionId = None\<rparr> (service st) of
        (res, sv) \<Rightarrow> (res, st\<lparr>service := sv\<rparr>))
   \<and> DeleteObject key (recording name) =
       ((None, None),
        \<lparr>bucket = New recorder name,
         service =
           [DeleteObject_received
              \<lparr>DeleteObjectInput.Bucket = Some name,
               DeleteObjectInput.BypassGovernanceRetention = None,
               DeleteObjectInput.ExpectedBucketOwner = None, DeleteObjectInput.Key = Some key,
               DeleteObjectInput.MFA = None, DeleteObjectInput.RequestPayer = None,
               DeleteObjectInput.VersionId = None\<rparr>]\<rparr>)"
  by (simp add: DeleteObject_def Let_def call_def recording_def recorder_def New_def aws_String_def)

theorem DeleteObject_request_witness:
  "DeleteObject ''cat.png'' (recording ''photos'') =
       ((None, None),
        \<lparr>bucket = New recorder ''photos'',
         service =
           [DeleteObject_received
              \<lparr>DeleteObjectInput.Bucket = Some ''photos'',
               DeleteObjectInput.BypassGovernanceRetention = None,
               DeleteObjectInput.ExpectedBucketOwner = None,
               DeleteObjectInput.Key = Some ''cat.png'',
               DeleteObjectInput.MFA = None, DeleteObjectInput.RequestPayer = None,
               DeleteObjectInput.VersionId = None\<rparr>]\<rparr>)"
  by (rule DeleteObject_request [THEN conjunct2])

text \<open>
  Claim C9. \<^verbatim>\<open>New(s, name)\<close> makes a handle with the client \<open>s\<close> and the name \<open>name\<close>,
  and no method assigns to the handle: after each of the twelve methods the handle in the
  state is the handle before the call.
\<close>

theorem Bucket_immutable:
  "S3 (New s name) = s \<and> Name (New s name) = Some name
   \<and> bucket (snd (GetObject key gopts st)) = bucket st
   \<and> bucket (snd (GetObjectReader key gopts st)) = bucket st
   \<and> bucket (snd (GetObjectRequest key gopts st)) = bucket st
   \<and> bucket (snd (HeadObject key hopts st)) = bucket st
   \<and> bucket (snd (ExistsObject key hopts st)) = bucket st
   \<and> bucket (snd (PutObject key rs popts st)) = bucket st
   \<and> bucket (snd (DeleteObject key st)) = bucket st
   \<and> bucket (snd (DeleteObjects identifiers st)) = bucket st
   \<and> bucket (snd (ListObjects prefix lopts st)) = bucket st
   \<and> bucket (snd (ListObjectsV2PagesWithContext ctx prefix pageFunc2 l2opts st)) = bucket st
   \<and> bucket (snd (ListObjectVersionsPagesWithContext ctx prefix pageFuncV lvopts st)) = bucket st
   \<and> bucket (snd (CopyObject dest src copts st)) = bucket st"
proof -
  have "S3 (New s name) = s" "Name (New s name) = Some name"
    by (simp_all add: New_def aws_String_def)
  moreover have "bucket (snd (GetObject key gopts st)) = bucket st"
    by (simp add: GetObject_call bucket_call)
  moreover have "bucket (snd (GetObjectRequest key gopts st)) = bucket st"
    by (simp add: GetObjectRequest_call bucket_call)
  moreover have "bucket (snd (HeadObject key hopts st)) = bucket st"
    by (simp add: HeadObject_call bucket_call)
  moreover have "bucket (snd (PutObject key rs popts st)) = bucket st"
    by (simp add: PutObject_call bucket_call)
  moreover have "bucket (snd (DeleteObject key st)) = bucket st"
    by (simp add: DeleteObject_call bucket_call)
  moreover have "bucket (snd (DeleteObjects identifiers st)) = bucket st"
    by (simp add: DeleteObjects_call bucket_call)
  moreover have "bucket (snd (ListObjects prefix lopts st)) = bucket st"
    by (simp add: ListObjects_call bucket_call)
  moreover have
    "bucket (snd (ListObjectsV2PagesWithContext ctx prefix pageFunc2 l2opts st)) = bucket st"
    by (simp add: ListObjectsV2PagesWithContext_call bucket_call)
  moreover have
    "bucket (snd (ListObjectVersionsPagesWithContext ctx prefix pageFuncV lvopts st)) = bucket st"
    by (simp add: ListObjectVersionsPagesWithContext_call bucket_call)
  moreover have "bucket (snd (CopyObject dest src copts st)) = bucket st"
    by (simp add: CopyObject_call bucket_call)
  ultimately show ?thesis
    by (simp only: bucket_GetObjectReader bucket_ExistsObject simp_thms)
qed

theorem Bucket_immutable_witness:
  "bucket (snd (PutObject ''cat.png'' (Some ''bytes'') [ACLPrivate] (started (None, None) None)))
     = New (double (None, None) None) ''photos''
   \<and> service (snd (PutObject ''cat.png'' (Some ''bytes'') [ACLPrivate] (started (None, None) None))) = 1"
proof -
  have "bucket (snd (PutObject ''cat.png'' (Some ''bytes'') [ACLPrivate] (started (None, None) None)))
      = bucket (started (None, None) None)"
    using Bucket_immutable [where st = "started (None, None) None" and popts = "[ACLPrivate]"
        and key = "''cat.png''" and rs = "Some ''bytes''"]
    by blast
  moreover have
    "service (snd (PutObject ''cat.png'' (Some ''bytes'') [ACLPrivate] (started (None, None) None))) = 1"
    by (simp add: PutObject_call call_def started_def double_def New_def)
  ultimately show ?thesis by (simp add: started_def)
qed

text \<open>
  Claim C10. \<^verbatim>\<open>SSEKMSKeyID(k)\<close> sets the key id to \<open>k\<close> and the encryption mode to
  \<^verbatim>\<open>aws:kms\<close>; \<^verbatim>\<open>SSES3()\<close> assigns the encryption mode \<^verbatim>\<open>AES256\<close> and no other field. So
  after \<^verbatim>\<open>SSEKMSKeyID(k)\<close> and then \<^verbatim>\<open>SSES3()\<close> the mode is \<^verbatim>\<open>AES256\<close> while the key id
  is still \<open>k\<close>: the later option does not clear it.
\<close>

theorem SSEKMSKeyID_then_SSES3:
  "PutObjectInput.SSEKMSKeyId (SSEKMSKeyID k req) = Some k
   \<and> PutObjectInput.ServerSideEncryption (SSEKMSKeyID k req) = Some ''aws:kms''
   \<and> SSES3 req = req\<lparr>PutObjectInput.ServerSideEncryption := Some ''AES256''\<rparr>
   \<and> PutObjectInput.ServerSideEncryption (apply_opts [SSEKMSKeyID k, SSES3] req) = Some ''AES256''
   \<and> PutObjectInput.SSEKMSKeyId (apply_opts [SSEKMSKeyID k, SSES3] req) = Some k"
  by (simp add: put_defs apply_opts_def)

theorem SSEKMSKeyID_then_SSES3_witness:
  "apply_opts [SSEKMSKeyID ''alias/photos'', SSES3] zero_PutObjectInput =
     zero_PutObjectInput\<lparr>PutObjectInput.SSEKMSKeyId := Some ''alias/photos'',
                          PutObjectInput.ServerSideEncryption := Some ''AES256''\<rparr>"
proof -
  let ?r = "apply_opts [SSEKMSKeyID ''alias/photos'', SSES3] zero_PutObjectInput"
  have "?r = SSES3 (SSEKMSKeyID ''alias/photos'' zero_PutObjectInput)"
    by (simp add: apply_opts_def)
  also have "\<dots> = (SSEKMSKeyID ''alias/photos'' zero_PutObjectInput)
      \<lparr>PutObjectInput.ServerSideEncryption := Some ''AES256''\<rparr>"
    using SSEKMSKeyID_then_SSES3 [of "''alias/photos''" "SSEKMSKeyID ''alias/photos'' zero_PutObjectInput"]
    by blast
  finally show ?thesis
    by (simp add: SSEKMSKeyID_def aws_String_def)
qed

end
